theory Spec2Isabelle
  imports Complex_Main "HOL-Library.Sublist"
begin

section \<open>JavaScript values used by the scripts\<close>

text \<open>
  The scripts are k6 load tests. The values they compute with are numbers (the counters
  \<open>__VU\<close> and \<open>__ITER\<close>, the value of \<open>Math.random()\<close>, the page number, HTTP status
  codes), strings built by template literals, and object literals handed to
  \<open>JSON.stringify\<close>. A number is a binary64 value. An integer-valued number is modelled by
  the integer it denotes, and the results of arithmetic are rounded as binary64 rounds them.
  Strings are lists of characters.
\<close>

subsection \<open>Rounding to binary64\<close>

text \<open>The number of binary digits of a natural number.\<close>

fun bit_length :: "nat \<Rightarrow> nat" where
  "bit_length n = (if n = 0 then 0 else Suc (bit_length (n div 2)))"

declare bit_length.simps [simp del]

text \<open>
  Rounding a natural number to 53 significant binary digits, to the nearest such number
  and to the one with an even last digit when two are equally near. This is how binary64
  rounds the exact result of an operation; a number of at most 53 binary digits is left as
  it is.
\<close>

definition round53 :: "nat \<Rightarrow> nat" where
  "round53 a =
     (if bit_length a \<le> 53 then a
      else let s = bit_length a - 53; q = a div 2 ^ s; r = a mod 2 ^ s
           in if 2 * r > 2 ^ s \<or> (2 * r = 2 ^ s \<and> odd q) then (q + 1) * 2 ^ s else q * 2 ^ s)"

text \<open>
  A binary64 value in the interval from 0 to 1, 1 excluded, as \<open>Math.random()\<close> returns
  one: the number \<open>mant / 2 ^ expo\<close> with a significand of at most 53 binary digits and
  an exponent that binary64 has.
\<close>

record unit_double =
  mant :: nat
  expo :: nat

definition is_unit_double :: "unit_double \<Rightarrow> bool" where
  "is_unit_double d \<longleftrightarrow> mant d < 2 ^ 53 \<and> mant d < 2 ^ expo d \<and> expo d \<le> 1074"

definition value_of :: "unit_double \<Rightarrow> real" where
  "value_of d = real (mant d) / 2 ^ expo d"

text \<open>
  \<open>d * 100\<close> in binary64: the exact product is \<open>(mant * 100) / 2 ^ expo\<close>, and its
  numerator is rounded to 53 binary digits. (The exact product is a multiple of
  \<open>2 ^ - 1074\<close> and below 100, so that no other rounding and no overflow takes place.)
\<close>

definition times_100 :: "unit_double \<Rightarrow> real" where
  "times_100 d = real (round53 (mant d * 100)) / 2 ^ expo d"

subsection \<open>Numbers in template literals\<close>

definition digit_char :: "nat \<Rightarrow> char" where
  "digit_char d = ''0123456789'' ! d"

text \<open>The decimal digits of a non-negative integer, most significant first.\<close>

fun dec_nat :: "nat \<Rightarrow> string" where
  "dec_nat n =
     (if n < 10 then [digit_char n] else dec_nat (n div 10) @ [digit_char (n mod 10)])"

declare dec_nat.simps [simp del]

text \<open>
  \<open>`${i}`\<close> for an integer-valued number \<open>i\<close>, which JavaScript renders in decimal
  digits when it is below \<open>10^21\<close> in magnitude.
\<close>

definition Number_toString :: "int \<Rightarrow> string" where
  "Number_toString i =
     (if i < 0 then CHR ''-'' # dec_nat (nat (- i)) else dec_nat (nat i))"

text \<open>Reading a decimal rendering back, digit by digit.\<close>

definition digit_val :: "char \<Rightarrow> nat" where
  "digit_val c = of_char c - 48"

definition read_nat :: "string \<Rightarrow> nat" where
  "read_nat s = foldl (\<lambda>a c. 10 * a + digit_val c) 0 s"

subsection \<open>JSON.stringify\<close>

datatype json =
    JNum int
  | JStr string
  | JArr "json list"
  | JObj "(string \<times> json) list"

definition hex_char :: "nat \<Rightarrow> char" where
  "hex_char d = ''0123456789abcdef'' ! d"

text \<open>
  The escapes \<open>JSON.stringify\<close> applies inside a string literal: the quote, the
  backslash, the five short control escapes, and \<open>\u00XX\<close> for the other characters
  below the space.
\<close>

definition escape_char :: "char \<Rightarrow> string" where
  "escape_char c =
     (if c = CHR 0x22 then [CHR 0x5C, CHR 0x22]
      else if c = CHR 0x5C then [CHR 0x5C, CHR 0x5C]
      else if c = CHR 0x08 then [CHR 0x5C, CHR ''b'']
      else if c = CHR 0x0C then [CHR 0x5C, CHR ''f'']
      else if c = CHR 0x0A then [CHR 0x5C, CHR ''n'']
      else if c = CHR 0x0D then [CHR 0x5C, CHR ''r'']
      else if c = CHR 0x09 then [CHR 0x5C, CHR ''t'']
      else if (of_char c :: nat) < 32
        then [CHR 0x5C, CHR ''u'', CHR ''0'', CHR ''0'',
              hex_char (of_char c div 16), hex_char (of_char c mod 16)]
      else [c])"

definition quote :: "string \<Rightarrow> string" where
  "quote s = CHR 0x22 # concat (map escape_char s) @ [CHR 0x22]"

fun join_comma :: "string list \<Rightarrow> string" where
  "join_comma [] = []"
| "join_comma [s] = s"
| "join_comma (s # t # ss) = s @ CHR '','' # join_comma (t # ss)"

text \<open>
  \<open>JSON.stringify(value)\<close> without indentation: members in the order of the object
  literal, separated by commas, with no white space.
\<close>

fun JSON_stringify :: "json \<Rightarrow> string" where
  "JSON_stringify (JNum i) = Number_toString i"
| "JSON_stringify (JStr s) = quote s"
| "JSON_stringify (JArr vs) = CHR ''['' # join_comma (map JSON_stringify vs) @ '']''"
| "JSON_stringify (JObj kvs) =
     CHR ''{'' # join_comma (map (\<lambda>(k, v). quote k @ CHR '':'' # JSON_stringify v) kvs) @ ''}''"

text \<open>Reading a member of an object literal by its key.\<close>

fun member :: "json \<Rightarrow> string \<Rightarrow> json option" where
  "member (JObj kvs) k = map_of kvs k"
| "member _ k = None"

fun keys :: "json \<Rightarrow> string list" where
  "keys (JObj kvs) = map fst kvs"
| "keys _ = []"

section \<open>The k6 interface the scripts call\<close>

text \<open>
  A request as \<open>http.get(url, params)\<close> and \<open>http.post(url, body, params)\<close> issue it,
  and the part of a response object the scripts read: \<open>status\<close>, \<open>body\<close> and
  \<open>timings.duration\<close>. The body is a string, or \<open>null\<close> (here \<open>None\<close>) when k6 has
  read no response body, as for a request that ended without a response.
\<close>

datatype http_method = GET | POST

record params =
  headers :: "(string \<times> string) list"
  tags :: "(string \<times> string) list"

record request =
  req_method :: http_method
  url :: string
  payload :: "string option"
  req_params :: params

record response =
  status :: int
  body :: "string option"
  timings_duration :: real

text \<open>
  Reading a property of \<open>null\<close> throws a \<open>TypeError\<close>. The scripts have no
  \<open>try\<close>, so that an exception ends the iteration.
\<close>

datatype error = TypeError

text \<open>\<open>r.body.length\<close>\<close>

definition body_length :: "response \<Rightarrow> error + nat" where
  "body_length r = (case body r of None \<Rightarrow> Inl TypeError | Some b \<Rightarrow> Inr (length b))"

text \<open>\<open>a > n\<close>, where evaluating \<open>a\<close> may throw.\<close>

definition js_gt :: "error + nat \<Rightarrow> nat \<Rightarrow> error + bool" where
  "js_gt a n = (case a of Inl e \<Rightarrow> Inl e | Inr m \<Rightarrow> Inr (m > n))"

text \<open>\<open>`${r.body}`\<close>: the body itself, or the word \<open>null\<close>.\<close>

definition body_text :: "response \<Rightarrow> string" where
  "body_text r = (case body r of None \<Rightarrow> ''null'' | Some b \<Rightarrow> b)"

text \<open>
  What one iteration of a script does, in order: the groups it enters and leaves, the
  requests it sends, the checks it records (the response checked and the outcome of each
  named predicate evaluated), the lines it logs, the samples it adds to a trend metric, its
  sleeps, and the exception that ends it, if one does.
\<close>

datatype event =
    GroupBegin string
  | GroupEnd
  | Sent request
  | Checked response "(string \<times> bool) list"
  | Logged string
  | TrendAdded string real
  | Slept nat
  | Uncaught error

fun requests_of :: "event list \<Rightarrow> request list" where
  "requests_of [] = []"
| "requests_of (Sent rq # es) = rq # requests_of es"
| "requests_of (e # es) = requests_of es"

fun logs_of :: "event list \<Rightarrow> string list" where
  "logs_of [] = []"
| "logs_of (Logged l # es) = l # logs_of es"
| "logs_of (e # es) = logs_of es"

text \<open>
  The API under test is outside the scripts: it answers a request with any response, and
  the answer may depend on the requests the iteration has sent before.
\<close>

type_synonym server = "request list \<Rightarrow> request \<Rightarrow> response"

text \<open>
  A statement of a script acts on the events so far. It either throws, leaving the events
  up to the exception, or completes with a value and the events extended.
\<close>

type_synonym 'a action = "event list \<Rightarrow> (error \<times> event list) + ('a \<times> event list)"

text \<open>\<open>const a = f; g\<close>: when \<open>f\<close> throws, \<open>g\<close> is not run.\<close>

definition and_then :: "'a action \<Rightarrow> ('a \<Rightarrow> 'b action) \<Rightarrow> 'b action" where
  "and_then f g tr = (case f tr of Inl thrown \<Rightarrow> Inl thrown | Inr (a, tr') \<Rightarrow> g a tr')"

text \<open>\<open>f; g\<close>\<close>

definition then_do :: "unit action \<Rightarrow> 'b action \<Rightarrow> 'b action" where
  "then_do f g = and_then f (\<lambda>u. g)"

definition skip :: "unit action" where
  "skip tr = Inr ((), tr)"

definition emit :: "event \<Rightarrow> unit action" where
  "emit e tr = Inr ((), tr @ [e])"

definition http_get :: "server \<Rightarrow> string \<Rightarrow> params \<Rightarrow> response action" where
  "http_get srv u ps tr =
     (let rq = \<lparr>req_method = GET, url = u, payload = None, req_params = ps\<rparr>
      in Inr (srv (requests_of tr) rq, tr @ [Sent rq]))"

definition http_post :: "server \<Rightarrow> string \<Rightarrow> string \<Rightarrow> params \<Rightarrow> response action" where
  "http_post srv u b ps tr =
     (let rq = \<lparr>req_method = POST, url = u, payload = Some b, req_params = ps\<rparr>
      in Inr (srv (requests_of tr) rq, tr @ [Sent rq]))"

text \<open>
  \<open>check(res, {name: predicate, ...})\<close> evaluates the predicates on the response in the
  order of the object literal. k6 counts a predicate that throws as failed and passes the
  exception on without evaluating the predicates after it.
\<close>

fun run_predicates ::
    "response \<Rightarrow> (string \<times> (response \<Rightarrow> error + bool)) list
       \<Rightarrow> (string \<times> bool) list \<times> error option" where
  "run_predicates res [] = ([], None)"
| "run_predicates res ((name, p) # rest) =
     (case p res of
        Inl e \<Rightarrow> ([(name, False)], Some e)
      | Inr b \<Rightarrow> (case run_predicates res rest of (outs, exc) \<Rightarrow> ((name, b) # outs, exc)))"

definition check :: "response \<Rightarrow> (string \<times> (response \<Rightarrow> error + bool)) list \<Rightarrow> unit action" where
  "check res sets tr =
     (case run_predicates res sets of
        (outs, None) \<Rightarrow> Inr ((), tr @ [Checked res outs])
      | (outs, Some e) \<Rightarrow> Inl (e, tr @ [Checked res outs]))"

text \<open>\<open>group(name, fn)\<close> runs \<open>fn\<close> inside the group.\<close>

definition group :: "string \<Rightarrow> unit action \<Rightarrow> unit action" where
  "group name fn = then_do (emit (GroupBegin name)) (then_do fn (emit GroupEnd))"

definition sleep :: "nat \<Rightarrow> unit action" where
  "sleep n = emit (Slept n)"

definition console_log :: "string \<Rightarrow> unit action" where
  "console_log msg = emit (Logged msg)"

definition Trend_add :: "string \<Rightarrow> real \<Rightarrow> unit action" where
  "Trend_add name v = emit (TrendAdded name v)"

text \<open>
  One call of a default function by the harness: the events of the call, closed by the
  exception when one was thrown out of it.
\<close>

definition iteration :: "unit action \<Rightarrow> event list" where
  "iteration f = (case f [] of Inl (e, tr) \<Rightarrow> tr @ [Uncaught e] | Inr (u, tr) \<Rightarrow> tr)"

definition json_headers :: params where
  "json_headers = \<lparr>headers = [(''Content-Type'', ''application/json'')], tags = []\<rparr>"

subsection \<open>Reading a run\<close>

text \<open>
  An exchange is a request together with the check made on its response: in a run, the
  check that follows a request, before the next request, is the check attached to it.
\<close>

record exchange =
  ex_request :: request
  ex_response :: response
  ex_outcomes :: "(string \<times> bool) list"

fun pair_up :: "request option \<Rightarrow> event list \<Rightarrow> exchange list" where
  "pair_up cur [] = []"
| "pair_up cur (Sent rq # es) = pair_up (Some rq) es"
| "pair_up (Some rq) (Checked r outs # es) =
     \<lparr>ex_request = rq, ex_response = r, ex_outcomes = outs\<rparr> # pair_up None es"
| "pair_up None (Checked r outs # es) = pair_up None es"
| "pair_up cur (e # es) = pair_up cur es"

definition exchanges :: "event list \<Rightarrow> exchange list" where
  "exchanges tr = pair_up None tr"

text \<open>
  The responses a server gives to a sequence of requests, each after the ones before it.
\<close>

fun answers :: "server \<Rightarrow> request list \<Rightarrow> request list \<Rightarrow> response list" where
  "answers srv hist [] = []"
| "answers srv hist (rq # rqs) = srv hist rq # answers srv (hist @ [rq]) rqs"

definition all_passed :: "exchange \<Rightarrow> bool" where
  "all_passed x = list_all snd (ex_outcomes x)"

text \<open>The endpoint of a request: its URL without the query string.\<close>

definition endpoint :: "request \<Rightarrow> string" where
  "endpoint rq = takeWhile (\<lambda>c. c \<noteq> CHR ''?'') (url rq)"

text \<open>A server that answers every request with the same response.\<close>

definition fixed_server :: "response \<Rightarrow> server" where
  "fixed_server r hist rq = r"

text \<open>A server all of whose responses carry a body.\<close>

definition answers_with_body :: "server \<Rightarrow> bool" where
  "answers_with_body srv \<longleftrightarrow> (\<forall>hist rq. body (srv hist rq) \<noteq> None)"

section \<open>The default entry points\<close>

text \<open>Every script declares the same base URL.\<close>

definition BASE_URL :: string where
  "BASE_URL = ''https://dev-durotrace-api.azurewebsites.net''"

subsection \<open>Module 1: serial codes and master data (k6-module1.js, src/unnamed/part\_000)\<close>

definition module1_default :: "server \<Rightarrow> event list" where
  "module1_default srv = iteration
     (then_do
        (group ''Module 1: Serial Codes & Master Data Tests''
          (then_do
             (group ''GET - Get Serial Code Details''
               (and_then
                  (http_get srv (BASE_URL @ ''/api/serialcode/get-serial-code-details-data'')
                     json_headers)
                  (\<lambda>res. check res
                     [(''GET details status is 200'', \<lambda>r. Inr (status r = 200)),
                      (''GET details has non-empty body'', \<lambda>r. js_gt (body_length r) 0)])))
          (then_do
             (group ''POST - Generate Serial Codes''
               (let payload = JSON_stringify (JObj
                     [(''product_category_code'', JNum 1),
                      (''plant_code'', JStr ''P001''),
                      (''procurement_type_code'', JNum 1),
                      (''no_of_code'', JNum 2),
                      (''user_code'', JStr ''3fa85f64-5717-4562-b3fc-2c963f66afa6'')])
                in and_then
                  (http_post srv (BASE_URL @ ''/api/serialcode/generate'') payload json_headers)
                  (\<lambda>res. check res
                     [(''POST generate status is 201'', \<lambda>r. Inr (status r = 201)),
                      (''POST generate has non-empty body'', \<lambda>r. js_gt (body_length r) 0)])))
          (then_do
             (group ''GET - Get Serial Code Headers''
               (and_then
                  (http_get srv (BASE_URL @ ''/api/serialcode/get-serial-code-headers-data'')
                     json_headers)
                  (\<lambda>res. check res
                     [(''GET headers status is 200'', \<lambda>r. Inr (status r = 200)),
                      (''GET headers has non-empty body'', \<lambda>r. js_gt (body_length r) 0)])))
             (group ''Master Data Endpoints''
               (and_then
                  (http_get srv (BASE_URL @ ''/api/master/get-plants-data'') json_headers)
                  (\<lambda>plantsRes.
                then_do
                  (check plantsRes
                     [(''GET plants data status is 200'', \<lambda>r. Inr (status r = 200)),
                      (''GET plants data has non-empty body'', \<lambda>r. js_gt (body_length r) 0)])
               (and_then
                  (http_get srv (BASE_URL @ ''/api/master/get-product-categories-data'')
                     json_headers)
                  (\<lambda>categoriesRes.
                then_do
                  (check categoriesRes
                     [(''GET product categories status is 200'', \<lambda>r. Inr (status r = 200)),
                      (''GET product categories has non-empty body'',
                         \<lambda>r. js_gt (body_length r) 0)])
               (and_then
                  (http_get srv (BASE_URL @ ''/api/master/get-procurement-types-data'')
                     json_headers)
                  (\<lambda>procurementRes.
                  check procurementRes
                     [(''GET procurement types status is 200'', \<lambda>r. Inr (status r = 200)),
                      (''GET procurement types has non-empty body'',
                         \<lambda>r. js_gt (body_length r) 0)])))))))))))
        (sleep 1))"

subsection \<open>The paginated script (k6-script.js, src/unnamed/part\_001, lines 1 to 119)\<close>

text \<open>
  \<open>Math.floor(Math.random() * 100) + 1\<close>, for the binary64 value \<open>d\<close> that
  \<open>Math.random()\<close> returned: the floor of the binary64 product, which for a product of the
  form \<open>n / 2 ^ expo\<close> is the quotient of the integer division, and one more. Then the
  constant \<open>pageSize\<close>.
\<close>

definition page :: "unit_double \<Rightarrow> int" where
  "page d = int (round53 (mant d * 100) div 2 ^ expo d) + 1"

definition pageSize :: int where
  "pageSize = 50"

definition paginatedUrl :: "unit_double \<Rightarrow> string" where
  "paginatedUrl d =
     BASE_URL @ ''/api/serialcode/get-serial-codes-data?page='' @ Number_toString (page d)
       @ ''&pageSize='' @ Number_toString pageSize"

definition k6_script_default :: "unit_double \<Rightarrow> server \<Rightarrow> event list" where
  "k6_script_default d srv = iteration
     (group ''Durotrace API Performance Tests''
       (then_do
          (group ''GET - Get Paginated Data''
            (and_then (http_get srv (paginatedUrl d) json_headers) (\<lambda>res.
             then_do (Trend_add ''get_paginated_data_duration'' (timings_duration res))
               (check res
                  [(''Paginated GET status is 200'', \<lambda>r. Inr (status r = 200)),
                   (''Paginated GET has non-empty body'', \<lambda>r. js_gt (body_length r) 0)]))))
       (then_do
          (group ''GET - Get Serial Code Headers''
            (and_then
               (http_get srv (BASE_URL @ ''/api/serialcode/get-serial-code-headers-data'')
                  json_headers)
               (\<lambda>res.
             then_do (Trend_add ''get_serial_code_headers_duration'' (timings_duration res))
               (check res
                  [(''GET headers status is 200'', \<lambda>r. Inr (status r = 200)),
                   (''GET headers has non-empty body'', \<lambda>r. js_gt (body_length r) 0)]))))
          (group ''POST - Generate Serial Codes''
            (let payload = JSON_stringify (JObj
                  [(''product_category_code'', JNum 1),
                   (''plant_code'', JStr ''P001''),
                   (''procurement_type_code'', JNum 1),
                   (''no_of_code'', JNum 2),
                   (''user_code'', JStr ''3fa85f64-5717-4562-b3fc-2c963f66afa6'')])
             in and_then
               (http_post srv (BASE_URL @ ''/api/serialcode/generate'') payload json_headers)
               (\<lambda>res.
             then_do (Trend_add ''post_generate_duration'' (timings_duration res))
               (check res
                  [(''POST generate status is 201'', \<lambda>r. Inr (status r = 201)),
                   (''POST generate has non-empty body'',
                      \<lambda>r. js_gt (body_length r) 0)])))))))"

subsection \<open>Module 2: SmartPrint (k6-module2.js, src/unnamed/part\_001, lines 120 to 197)\<close>

definition module2_default :: "server \<Rightarrow> event list" where
  "module2_default srv = iteration
     (then_do
        (group ''Module 2: SmartPrint Tests''
          (then_do
             (group ''POST - SmartPrint''
               (let payload = JSON_stringify (JObj
                     [(''vendor_type'', JStr ''Vendor''),
                      (''vendor_code'', JStr ''3fa85f64-5717-4562-b3fc-2c963f66afa4''),
                      (''file_format'', JStr ''PDF''),
                      (''delivery_method'', JStr ''FileDownload''),
                      (''no_of_code'', JNum 3),
                      (''plant_code'', JStr ''P001''),
                      (''plant_name'', JStr ''PDN Factory''),
                      (''user_code'', JStr ''3fa85f64-5717-4562-b3fc-2c963f66afa6'')])
                in and_then
                  (http_post srv (BASE_URL @ ''/api/SmartPrint'') payload json_headers)
                  (\<lambda>res. check res
                     [(''POST SmartPrint status is 201'', \<lambda>r. Inr (status r = 201)),
                      (''POST SmartPrint has non-empty body'', \<lambda>r. js_gt (body_length r) 0)])))
             (group ''SmartPrint GET Endpoints''
               (and_then
                  (http_get srv (BASE_URL @ ''/api/smartprint/get-smart-print-headers-data'')
                     json_headers)
                  (\<lambda>headersRes.
                then_do
                  (check headersRes
                     [(''GET smart print headers status is 200'', \<lambda>r. Inr (status r = 200)),
                      (''GET smart print headers has non-empty body'',
                         \<lambda>r. js_gt (body_length r) 0)])
               (and_then
                  (http_get srv (BASE_URL @ ''/api/smartprint/get-smart-print-details-data'')
                     json_headers)
                  (\<lambda>detailsRes.
                  check detailsRes
                     [(''GET smart print details status is 200'', \<lambda>r. Inr (status r = 200)),
                      (''GET smart print details has non-empty body'',
                         \<lambda>r. js_gt (body_length r) 0)])))))))
        (sleep 1))"

subsection \<open>Module 3: smart scan capture (module3\_smartscan\_loadtest.js)\<close>

definition SMART_SCAN_CAPTURE_GENERATE_ENDPOINT :: string where
  "SMART_SCAN_CAPTURE_GENERATE_ENDPOINT = BASE_URL @ ''/api/smartscancapture/generate''"

definition SMART_SCAN_CAPTURE_GET_HEADERS_ENDPOINT :: string where
  "SMART_SCAN_CAPTURE_GET_HEADERS_ENDPOINT =
     BASE_URL @ ''/api/smartscancapture/get-po-headers-data''"

definition SMART_SCAN_CAPTURE_GET_DETAILS_ENDPOINT :: string where
  "SMART_SCAN_CAPTURE_GET_DETAILS_ENDPOINT =
     BASE_URL @ ''/api/smartscancapture/get-po-details-data''"

definition SMART_SCAN_CAPTURE_MRP_REPRINT_ENDPOINT :: string where
  "SMART_SCAN_CAPTURE_MRP_REPRINT_ENDPOINT = BASE_URL @ ''/api/smartscancapture/mrp-reprint''"

subsubsection \<open>generateOrderPayload\<close>

text \<open>
  \<open>const numericPart = (__VU * 10000 + __ITER);\<close> and
  \<open>const uniqueOrderNumber = `123456789${numericPart}`;\<close>
  The product and the sum are binary64 operations: each result is rounded, which changes
  it only when it has more than 53 binary digits.
\<close>

definition numericPart :: "nat \<Rightarrow> nat \<Rightarrow> nat" where
  "numericPart vu iter = round53 (round53 (vu * 10000) + iter)"

definition uniqueOrderNumber :: "nat \<Rightarrow> nat \<Rightarrow> string" where
  "uniqueOrderNumber vu iter = ''123456789'' @ dec_nat (numericPart vu iter)"

text \<open>The item record of the object literal, with the order number it is given.\<close>

definition order_item :: "string \<Rightarrow> json" where
  "order_item on = JObj
     [(''itemnumber'', JStr ''10''),
      (''materialcode'', JStr ''CB88SHFLIBLENDGJ03651C001025250GSMG''),
      (''materialdescription'', JStr ''CB88SHFLI BLEND GJ03651-C001025 250GSM''),
      (''orderedquantity'', JNum 1000),
      (''confirmedgrqty'', JNum 1000),
      (''storagelocation'', JStr ''RM03''),
      (''uom'', JStr ''M''),
      (''ordernumber'', JStr on),
      (''lineorderstatus'', JStr ''C''),
      (''content'', JStr ''''),
      (''category'', JStr ''''),
      (''model'', JStr ''''),
      (''productcode'', JStr ''''),
      (''dimension'', JStr ''''),
      (''netqty'', JNum 1),
      (''monthyear'', JStr ''''),
      (''mrp'', JNum 0),
      (''eannumber'', JStr ''''),
      (''mfgplantadd'', JStr ''''),
      (''customercare'', JStr ''''),
      (''l1code'', JStr ''99''),
      (''l1text'', JStr ''To be Created''),
      (''l2code'', JStr ''9999''),
      (''l2text'', JStr ''To be Created''),
      (''l3code'', JStr ''999999''),
      (''l3text'', JStr ''To be Created''),
      (''l4code'', JStr ''99999999''),
      (''l4text'', JStr ''To be Created''),
      (''l5code'', JStr ''999999999999''),
      (''l5text'', JStr ''To be Created''),
      (''l6code'', JStr ''99999999999999999''),
      (''l6text'', JStr ''To be Created''),
      (''remarks'', JStr ''''),
      (''attr1'', JStr ''0.000 ''),
      (''attr2'', JStr ''0.000 ''),
      (''attr3'', JStr ''0.000 ''),
      (''attr4'', JStr ''''),
      (''attr5'', JStr ''''),
      (''type'', JNum 0)]"

text \<open>The order record of the object literal.\<close>

definition order_record :: "string \<Rightarrow> json" where
  "order_record on = JObj
     [(''transactiontype'', JStr ''PURCHASE_ORDER''),
      (''ordernumber'', JStr on),
      (''orderdate'', JStr ''18/08/2025''),
      (''ordertime'', JStr ''12:16:22''),
      (''plantcode'', JStr ''P003''),
      (''prodorderstatus'', JStr ''''),
      (''storagelocation'', JStr ''RM03''),
      (''vendorCode'', JStr ''200128    ''),
      (''vendorName'', JStr ''GLOBAL TEXTILES ALLIANCE PVT LTD''),
      (''items'', JArr [order_item on])]"

text \<open>The object literal that \<open>generateOrderPayload\<close> passes to \<open>JSON.stringify\<close>.\<close>

definition orderObject :: "nat \<Rightarrow> nat \<Rightarrow> json" where
  "orderObject vu iter = JObj [(''order'', JArr [order_record (uniqueOrderNumber vu iter)])]"

definition generateOrderPayload :: "nat \<Rightarrow> nat \<Rightarrow> string" where
  "generateOrderPayload vu iter = JSON_stringify (orderObject vu iter)"

subsubsection \<open>generateMrpReprintPayload\<close>

text \<open>\<open>`P00302H4QhG6M1b00E-${__VU}-${__ITER}`\<close>\<close>

definition serial_number :: "nat \<Rightarrow> nat \<Rightarrow> string" where
  "serial_number vu iter = ''P00302H4QhG6M1b00E-'' @ dec_nat vu @ ''-'' @ dec_nat iter"

definition mrpReprintObject :: "nat \<Rightarrow> nat \<Rightarrow> json" where
  "mrpReprintObject vu iter = JObj
     [(''po_details_code'', JStr ''a6dd5d05-318f-4bca-833d-48d01aea97a3''),
      (''serial_number'', JStr (serial_number vu iter))]"

definition generateMrpReprintPayload :: "nat \<Rightarrow> nat \<Rightarrow> string" where
  "generateMrpReprintPayload vu iter = JSON_stringify (mrpReprintObject vu iter)"

subsubsection \<open>The default function\<close>

definition postParams :: params where
  "postParams = \<lparr>headers = [(''Content-Type'', ''application/json'')], tags = []\<rparr>"

text \<open>The line the script logs when the generate request fails.\<close>

definition generate_fail_line :: "response \<Rightarrow> string" where
  "generate_fail_line res =
     ''[GENERATE FAIL] Status: '' @ Number_toString (status res) @ '', Body: '' @ body_text res"

definition module3_default :: "nat \<Rightarrow> nat \<Rightarrow> server \<Rightarrow> event list" where
  "module3_default vu iter srv = iteration
     (let orderPayload = generateOrderPayload vu iter;
          mrpReprintPayload = generateMrpReprintPayload vu iter
      in group ''Module 3: Smart Scan Capture - Combined Tests''
       (then_do
          (group ''POST Endpoints (Write/Action)''
            (let generateParams = postParams\<lparr>tags := [(''name'', ''Smart Scan Generate POST'')]\<rparr>
             in and_then
               (http_post srv SMART_SCAN_CAPTURE_GENERATE_ENDPOINT orderPayload generateParams)
               (\<lambda>resGenerate.
             then_do
               (if status resGenerate \<ge> 400
                then console_log (generate_fail_line resGenerate) else skip)
            (then_do
               (check resGenerate
                  [(''Generate: status is 200/201'',
                      \<lambda>r. Inr (status r = 200 \<or> status r = 201))])
               (let mrpParams = postParams\<lparr>tags := [(''name'', ''Smart Scan MRP Reprint POST'')]\<rparr>
                in and_then
                  (http_post srv SMART_SCAN_CAPTURE_MRP_REPRINT_ENDPOINT mrpReprintPayload
                     mrpParams)
                  (\<lambda>resMrp. check resMrp
                     [(''MRP Reprint: status is 200/201'',
                         \<lambda>r. Inr (status r = 200 \<or> status r = 201))]))))))
       (then_do
          (group ''GET Endpoints (Data Retrieval)''
            (let headersParams =
                   \<lparr>headers = [], tags = [(''name'', ''Smart Scan GET PO Headers'')]\<rparr>
             in and_then
               (http_get srv SMART_SCAN_CAPTURE_GET_HEADERS_ENDPOINT headersParams)
               (\<lambda>resHeaders.
             then_do
               (check resHeaders
                  [(''GET PO Headers status is 200'', \<lambda>r. Inr (status r = 200)),
                   (''GET PO Headers has non-empty body'', \<lambda>r. js_gt (body_length r) 0)])
               (let detailsParams =
                      \<lparr>headers = [], tags = [(''name'', ''Smart Scan GET PO Details'')]\<rparr>
                in and_then
                  (http_get srv SMART_SCAN_CAPTURE_GET_DETAILS_ENDPOINT detailsParams)
                  (\<lambda>resDetails. check resDetails
                     [(''GET PO Details status is 200'', \<lambda>r. Inr (status r = 200)),
                      (''GET PO Details has non-empty body'',
                         \<lambda>r. js_gt (body_length r) 0)])))))
          (sleep 1))))"



subsection \<open>The scripts of the repository\<close>

text \<open>
  The four default entry points, for the values the harness supplies to an iteration:
  the virtual-user index \<open>__VU\<close>, the iteration index \<open>__ITER\<close> and the value
  \<open>Math.random()\<close> returns.
\<close>

definition scripts :: "nat \<Rightarrow> nat \<Rightarrow> unit_double \<Rightarrow> (server \<Rightarrow> event list) list" where
  "scripts vu iter d =
     [module1_default, k6_script_default d, module2_default, module3_default vu iter]"

subsection \<open>The scripts as sequences of test cases\<close>

text \<open>
  A test case is a request with the predicates checked on its response. Running a sequence
  of test cases against a server sends the requests in order, each followed by its check,
  and stops after the first check out of which an exception is thrown. The runs of the four
  scripts are shown below to be runs of such sequences.
\<close>

type_synonym test_case = "request \<times> (string \<times> (response \<Rightarrow> error + bool)) list"

fun run_cases :: "server \<Rightarrow> request list \<Rightarrow> test_case list \<Rightarrow> exchange list" where
  "run_cases srv hist [] = []"
| "run_cases srv hist ((rq, cs) # rest) =
     (case run_predicates (srv hist rq) cs of
        (outs, None) \<Rightarrow>
          \<lparr>ex_request = rq, ex_response = srv hist rq, ex_outcomes = outs\<rparr>
            # run_cases srv (hist @ [rq]) rest
      | (outs, Some e) \<Rightarrow>
          [\<lparr>ex_request = rq, ex_response = srv hist rq, ex_outcomes = outs\<rparr>])"

text \<open>What the check of a test case records on a response.\<close>

definition recorded ::
    "request \<Rightarrow> (string \<times> (response \<Rightarrow> error + bool)) list \<Rightarrow> response \<Rightarrow> exchange" where
  "recorded rq cs r =
     \<lparr>ex_request = rq, ex_response = r, ex_outcomes = fst (run_predicates r cs)\<rparr>"

text \<open>Predicates that throw on no response with a body.\<close>

definition safe_with_body :: "test_case \<Rightarrow> bool" where
  "safe_with_body c \<longleftrightarrow> (\<forall>r. body r \<noteq> None \<longrightarrow> snd (run_predicates r (snd c)) = None)"

definition get_case ::
    "string \<Rightarrow> params \<Rightarrow> (string \<times> (response \<Rightarrow> error + bool)) list \<Rightarrow> test_case" where
  "get_case u ps cs = (\<lparr>req_method = GET, url = u, payload = None, req_params = ps\<rparr>, cs)"

definition post_case ::
    "string \<Rightarrow> string \<Rightarrow> params \<Rightarrow> (string \<times> (response \<Rightarrow> error + bool)) list
       \<Rightarrow> test_case" where
  "post_case u b ps cs = (\<lparr>req_method = POST, url = u, payload = Some b, req_params = ps\<rparr>, cs)"

definition module1_cases :: "test_case list" where
  "module1_cases =
     [get_case (BASE_URL @ ''/api/serialcode/get-serial-code-details-data'') json_headers
        [(''GET details status is 200'', \<lambda>r. Inr (status r = 200)),
         (''GET details has non-empty body'', \<lambda>r. js_gt (body_length r) 0)],
      post_case (BASE_URL @ ''/api/serialcode/generate'')
        (JSON_stringify (JObj
           [(''product_category_code'', JNum 1),
            (''plant_code'', JStr ''P001''),
            (''procurement_type_code'', JNum 1),
            (''no_of_code'', JNum 2),
            (''user_code'', JStr ''3fa85f64-5717-4562-b3fc-2c963f66afa6'')]))
        json_headers
        [(''POST generate status is 201'', \<lambda>r. Inr (status r = 201)),
         (''POST generate has non-empty body'', \<lambda>r. js_gt (body_length r) 0)],
      get_case (BASE_URL @ ''/api/serialcode/get-serial-code-headers-data'') json_headers
        [(''GET headers status is 200'', \<lambda>r. Inr (status r = 200)),
         (''GET headers has non-empty body'', \<lambda>r. js_gt (body_length r) 0)],
      get_case (BASE_URL @ ''/api/master/get-plants-data'') json_headers
        [(''GET plants data status is 200'', \<lambda>r. Inr (status r = 200)),
         (''GET plants data has non-empty body'', \<lambda>r. js_gt (body_length r) 0)],
      get_case (BASE_URL @ ''/api/master/get-product-categories-data'') json_headers
        [(''GET product categories status is 200'', \<lambda>r. Inr (status r = 200)),
         (''GET product categories has non-empty body'', \<lambda>r. js_gt (body_length r) 0)],
      get_case (BASE_URL @ ''/api/master/get-procurement-types-data'') json_headers
        [(''GET procurement types status is 200'', \<lambda>r. Inr (status r = 200)),
         (''GET procurement types has non-empty body'', \<lambda>r. js_gt (body_length r) 0)]]"

definition k6_script_cases :: "unit_double \<Rightarrow> test_case list" where
  "k6_script_cases d =
     [get_case (paginatedUrl d) json_headers
        [(''Paginated GET status is 200'', \<lambda>r. Inr (status r = 200)),
         (''Paginated GET has non-empty body'', \<lambda>r. js_gt (body_length r) 0)],
      get_case (BASE_URL @ ''/api/serialcode/get-serial-code-headers-data'') json_headers
        [(''GET headers status is 200'', \<lambda>r. Inr (status r = 200)),
         (''GET headers has non-empty body'', \<lambda>r. js_gt (body_length r) 0)],
      post_case (BASE_URL @ ''/api/serialcode/generate'')
        (JSON_stringify (JObj
           [(''product_category_code'', JNum 1),
            (''plant_code'', JStr ''P001''),
            (''procurement_type_code'', JNum 1),
            (''no_of_code'', JNum 2),
            (''user_code'', JStr ''3fa85f64-5717-4562-b3fc-2c963f66afa6'')]))
        json_headers
        [(''POST generate status is 201'', \<lambda>r. Inr (status r = 201)),
         (''POST generate has non-empty body'', \<lambda>r. js_gt (body_length r) 0)]]"

definition module2_cases :: "test_case list" where
  "module2_cases =
     [post_case (BASE_URL @ ''/api/SmartPrint'')
        (JSON_stringify (JObj
           [(''vendor_type'', JStr ''Vendor''),
            (''vendor_code'', JStr ''3fa85f64-5717-4562-b3fc-2c963f66afa4''),
            (''file_format'', JStr ''PDF''),
            (''delivery_method'', JStr ''FileDownload''),
            (''no_of_code'', JNum 3),
            (''plant_code'', JStr ''P001''),
            (''plant_name'', JStr ''PDN Factory''),
            (''user_code'', JStr ''3fa85f64-5717-4562-b3fc-2c963f66afa6'')]))
        json_headers
        [(''POST SmartPrint status is 201'', \<lambda>r. Inr (status r = 201)),
         (''POST SmartPrint has non-empty body'', \<lambda>r. js_gt (body_length r) 0)],
      get_case (BASE_URL @ ''/api/smartprint/get-smart-print-headers-data'') json_headers
        [(''GET smart print headers status is 200'', \<lambda>r. Inr (status r = 200)),
         (''GET smart print headers has non-empty body'', \<lambda>r. js_gt (body_length r) 0)],
      get_case (BASE_URL @ ''/api/smartprint/get-smart-print-details-data'') json_headers
        [(''GET smart print details status is 200'', \<lambda>r. Inr (status r = 200)),
         (''GET smart print details has non-empty body'', \<lambda>r. js_gt (body_length r) 0)]]"

definition module3_cases :: "nat \<Rightarrow> nat \<Rightarrow> test_case list" where
  "module3_cases vu iter =
     [post_case SMART_SCAN_CAPTURE_GENERATE_ENDPOINT (generateOrderPayload vu iter)
        (postParams\<lparr>tags := [(''name'', ''Smart Scan Generate POST'')]\<rparr>)
        [(''Generate: status is 200/201'', \<lambda>r. Inr (status r = 200 \<or> status r = 201))],
      post_case SMART_SCAN_CAPTURE_MRP_REPRINT_ENDPOINT (generateMrpReprintPayload vu iter)
        (postParams\<lparr>tags := [(''name'', ''Smart Scan MRP Reprint POST'')]\<rparr>)
        [(''MRP Reprint: status is 200/201'', \<lambda>r. Inr (status r = 200 \<or> status r = 201))],
      get_case SMART_SCAN_CAPTURE_GET_HEADERS_ENDPOINT
        \<lparr>headers = [], tags = [(''name'', ''Smart Scan GET PO Headers'')]\<rparr>
        [(''GET PO Headers status is 200'', \<lambda>r. Inr (status r = 200)),
         (''GET PO Headers has non-empty body'', \<lambda>r. js_gt (body_length r) 0)],
      get_case SMART_SCAN_CAPTURE_GET_DETAILS_ENDPOINT
        \<lparr>headers = [], tags = [(''name'', ''Smart Scan GET PO Details'')]\<rparr>
        [(''GET PO Details status is 200'', \<lambda>r. Inr (status r = 200)),
         (''GET PO Details has non-empty body'', \<lambda>r. js_gt (body_length r) 0)]]"

subsection \<open>What the claims speak of\<close>

text \<open>
  The outcome of the predicate a check lists first. In every check of the four scripts
  this is the predicate on the status code.
\<close>

definition status_outcome :: "exchange \<Rightarrow> bool option" where
  "status_outcome ex = (case ex_outcomes ex of [] \<Rightarrow> None | (name, b) # rest \<Rightarrow> Some b)"

text \<open>
  Two responses that agree on the status code and on the length of the body (two responses
  without a body agree on it).
\<close>

definition same_status_and_length :: "response \<Rightarrow> response \<Rightarrow> bool" where
  "same_status_and_length r r' \<longleftrightarrow>
     status r = status r' \<and> map_option length (body r) = map_option length (body r')"

text \<open>
  What the status predicate of a check accepts: 200 on the response to a GET, 201 on the
  response to a POST, or 200 and 201 on the response to a POST.
\<close>

definition get_200 :: "exchange \<Rightarrow> bool" where
  "get_200 ex \<longleftrightarrow>
     (req_method (ex_request ex) = GET \<longrightarrow>
      status_outcome ex = Some (status (ex_response ex) = 200))"

definition post_201 :: "exchange \<Rightarrow> bool" where
  "post_201 ex \<longleftrightarrow>
     (req_method (ex_request ex) = POST \<longrightarrow>
      status_outcome ex = Some (status (ex_response ex) = 201))"

definition post_200_201 :: "exchange \<Rightarrow> bool" where
  "post_200_201 ex \<longleftrightarrow>
     (req_method (ex_request ex) = POST \<longrightarrow>
      status_outcome ex =
        Some (status (ex_response ex) = 200 \<or> status (ex_response ex) = 201))"


text \<open>The requests of a run that go to \<open>/api/serialcode/generate\<close>.\<close>

definition serialcode_generate_calls :: "event list \<Rightarrow> request list" where
  "serialcode_generate_calls tr =
     filter (\<lambda>rq. endpoint rq = BASE_URL @ ''/api/serialcode/generate'') (requests_of tr)"

text \<open>
  A check whose response has a body of length 0 records a failed predicate.
\<close>

definition body_checked :: "exchange \<Rightarrow> bool" where
  "body_checked ex \<longleftrightarrow> (body_length (ex_response ex) = Inr 0 \<longrightarrow> \<not> all_passed ex)"

text \<open>
  A check that records one predicate only, on the status code: 200 or 201.
\<close>

definition status_only :: "exchange \<Rightarrow> bool" where
  "status_only ex \<longleftrightarrow>
     map snd (ex_outcomes ex)
       = [status (ex_response ex) = 200 \<or> status (ex_response ex) = 201]"

text \<open>
  Two checks made at the same place of two runs record the same outcomes whenever the
  responses checked agree on status code and body length.
\<close>

definition agree_on_outcomes :: "exchange \<Rightarrow> exchange \<Rightarrow> bool" where
  "agree_on_outcomes ex ex' \<longleftrightarrow>
     (same_status_and_length (ex_response ex) (ex_response ex') \<longrightarrow>
      ex_outcomes ex = ex_outcomes ex')"

subsection \<open>Sample values\<close>

definition ok_empty :: response where
  "ok_empty = \<lparr>status = 200, body = Some [], timings_duration = 0\<rparr>"

definition ok_text :: response where
  "ok_text = \<lparr>status = 200, body = Some ''[]'', timings_duration = 12\<rparr>"

definition ok_braces :: response where
  "ok_braces = \<lparr>status = 200, body = Some ''{}'', timings_duration = 7\<rparr>"


text \<open>What the script sees of a request that ended without a response.\<close>

definition no_response :: response where
  "no_response = \<lparr>status = 0, body = None, timings_duration = 0\<rparr>"

text \<open>One half, and the binary64 value nearest to seven tenths.\<close>

definition one_half :: unit_double where
  "one_half = \<lparr>mant = 1, expo = 1\<rparr>"

definition seven_tenths :: unit_double where
  "seven_tenths = \<lparr>mant = 3152519739159347, expo = 52\<rparr>"

section \<open>Binary64 rounding\<close>

text \<open>Unfolding \<open>bit_length\<close> on literal numbers only.\<close>

lemmas bit_length_numeral =
  bit_length.simps [of "numeral k" for k] bit_length.simps [of 0] bit_length.simps [of "Suc 0"]

lemmas number_eval = numericPart_def round53_def bit_length_numeral Let_def

text \<open>A number below \<open>2 ^ 53\<close> is not changed by rounding.\<close>

lemma bit_length_le: "a < 2 ^ j \<Longrightarrow> bit_length a \<le> j"
proof (induction a arbitrary: j rule: bit_length.induct)
  case (1 n)
  show ?case
  proof (cases "n = 0")
    case True
    then show ?thesis by (simp add: bit_length.simps [of 0])
  next
    case False
    with "1.prems" obtain i where j: "j = Suc i"
      by (cases j) auto
    with "1.prems" have "n div 2 < 2 ^ i"
      by auto
    with 1 False have "bit_length (n div 2) \<le> i"
      by blast
    with False j show ?thesis
      by (simp add: bit_length.simps [of n])
  qed
qed

lemma round53_exact: "a < 2 ^ 53 \<Longrightarrow> round53 a = a"
  using bit_length_le [of a 53] by (simp add: round53_def)

text \<open>
  Rounding a number of at most 60 binary digits moves it by at most 64, and the rounded
  product of a significand with 100 stays below \<open>100 * 2 ^ expo\<close>.
\<close>

lemma round53_upper:
  assumes "a < 2 ^ 60"
  shows "round53 a \<le> a + 64"
proof (cases "bit_length a \<le> 53")
  case True
  then show ?thesis by (simp add: round53_def)
next
  case False
  define s where "s = bit_length a - 53"
  define P where "P = (2::nat) ^ s"
  define q where "q = a div P"
  define r where "r = a mod P"
  from assms have "bit_length a \<le> 60"
    by (rule bit_length_le)
  with False have "s \<le> 7"
    by (simp add: s_def)
  then have "P \<le> 2 ^ 7"
    unfolding P_def by (rule power_increasing) simp
  then have P: "P \<le> 128"
    by simp
  have a: "a = q * P + r"
    by (simp add: q_def r_def)
  have r: "round53 a = (if 2 * r > P \<or> (2 * r = P \<and> odd q) then (q + 1) * P else q * P)"
    using False by (simp add: round53_def Let_def s_def P_def q_def r_def)
  show ?thesis
  proof (cases "2 * r > P \<or> (2 * r = P \<and> odd q)")
    case True
    then have "P \<le> 2 * r"
      by auto
    with P have "P \<le> r + 64"
      by simp
    moreover from True r have "round53 a = q * P + P"
      by simp
    ultimately show ?thesis
      using a by simp
  next
    case False
    with r have "round53 a = q * P"
      by simp
    with a show ?thesis
      by simp
  qed
qed

lemma times_100_below:
  assumes "is_unit_double d"
  shows "round53 (mant d * 100) < 100 * 2 ^ expo d"
proof -
  from assms have m53: "mant d < 2 ^ 53" and mk: "mant d < 2 ^ expo d"
    by (simp_all add: is_unit_double_def)
  from m53 have "mant d * 100 < 2 ^ 53 * 128"
    by simp
  also have "\<dots> = (2::nat) ^ 60"
    by simp
  finally have "round53 (mant d * 100) \<le> mant d * 100 + 64"
    by (rule round53_upper)
  moreover from mk have "mant d * 100 + 100 \<le> 100 * 2 ^ expo d"
    by simp
  ultimately show ?thesis
    by simp
qed

text \<open>The values of \<open>Math.random()\<close> lie in the interval from 0 to 1, 1 excluded.\<close>

lemma value_of_unit:
  assumes "is_unit_double d"
  shows "0 \<le> value_of d \<and> value_of d < 1"
proof -
  from assms have "mant d < 2 ^ expo d"
    by (simp add: is_unit_double_def)
  then have "real (mant d) < real (2 ^ expo d)"
    by (simp only: of_nat_less_iff)
  then show ?thesis
    by (simp add: value_of_def)
qed

text \<open>Where the product has at most 53 binary digits, it is the exact product.\<close>

lemma times_100_exact:
  assumes "mant d * 100 < 2 ^ 53"
  shows "times_100 d = value_of d * 100"
  using round53_exact [OF assms] by (simp add: times_100_def value_of_def)

text \<open>The page number is the floor of the binary64 product, plus one, and lies in 1 to 100.\<close>

lemma page_floor: "page d = \<lfloor>times_100 d\<rfloor> + 1"
proof -
  have "(2::real) ^ expo d = real (2 ^ expo d)"
    by simp
  then have "\<lfloor>times_100 d\<rfloor> = int (round53 (mant d * 100) div 2 ^ expo d)"
    unfolding times_100_def by (simp only: floor_divide_of_nat_eq)
  then show ?thesis
    by (simp add: page_def)
qed

lemma page_range:
  assumes "is_unit_double d"
  shows "1 \<le> page d \<and> page d \<le> 100"
proof -
  from times_100_below [OF assms] have "round53 (mant d * 100) div 2 ^ expo d < 100"
    by (simp add: less_mult_imp_div_less)
  then show ?thesis
    by (simp add: page_def)
qed

text \<open>
  Above \<open>2 ^ 53\<close> the sum \<open>__VU * 10000 + __ITER\<close> is rounded: two successive
  iteration indices give one numeric part there.
\<close>

lemma numericPart_rounded:
  "numericPart 1000000000000000 0 = 10000000000000000000 \<and>
   numericPart 1000000000000000 1 = 10000000000000000000"
  by (simp add: number_eval)

section \<open>Decimal renderings and payload strings\<close>

text \<open>
  A decimal rendering consists of digits and reads back to the number rendered, so that
  distinct numbers have distinct renderings.
\<close>

lemma lt10_cases: "d < 10 \<Longrightarrow> d \<in> {0, 1, 2, 3, 4, 5, 6, 7, 8, 9::nat}"
  by auto

lemma digit_char_digit: "d < 10 \<Longrightarrow> digit_char d \<in> set ''0123456789''"
  by (drule lt10_cases) (auto simp: digit_char_def)

lemma digit_val_char: "d < 10 \<Longrightarrow> digit_val (digit_char d) = d"
  by (drule lt10_cases) (auto simp: digit_val_def digit_char_def)

lemma read_nat_dec_nat: "read_nat (dec_nat n) = n"
proof (induction n rule: dec_nat.induct)
  case (1 n)
  show ?case
  proof (cases "n < 10")
    case True
    then show ?thesis
      by (simp add: dec_nat.simps [of n] read_nat_def digit_val_char)
  next
    case False
    with 1 have "read_nat (dec_nat (n div 10)) = n div 10"
      by simp
    with False show ?thesis
      by (simp add: dec_nat.simps [of n] read_nat_def digit_val_char)
  qed
qed

lemma dec_nat_inj: "dec_nat m = dec_nat n \<Longrightarrow> m = n"
proof -
  assume "dec_nat m = dec_nat n"
  then have "read_nat (dec_nat m) = read_nat (dec_nat n)"
    by (rule arg_cong)
  then show "m = n"
    by (simp only: read_nat_dec_nat)
qed

lemma dec_nat_digits: "set (dec_nat n) \<subseteq> set ''0123456789''"
proof (induction n rule: dec_nat.induct)
  case (1 n)
  show ?case
  proof (cases "n < 10")
    case True
    then show ?thesis
      using digit_char_digit [of n] by (simp add: dec_nat.simps [of n])
  next
    case False
    with 1 have "set (dec_nat (n div 10)) \<subseteq> set ''0123456789''"
      by simp
    moreover have "digit_char (n mod 10) \<in> set ''0123456789''"
      by (rule digit_char_digit) simp
    ultimately show ?thesis
      using False by (simp add: dec_nat.simps [of n])
  qed
qed

lemma dec_nat_free: "c \<notin> set ''0123456789'' \<Longrightarrow> c \<notin> set (dec_nat n)"
  using dec_nat_digits [of n] by blast

lemma split_at_separator:
  assumes "a @ c # b = a' @ c # b'" and "c \<notin> set a" and "c \<notin> set a'"
  shows "a = a' \<and> b = b'"
  using assms
proof (induction a arbitrary: a')
  case Nil
  then show ?case by (cases a') auto
next
  case (Cons x a)
  then show ?case by (cases a') auto
qed

lemma serial_number_inj:
  assumes "serial_number vu iter = serial_number vu' iter'"
  shows "vu = vu' \<and> iter = iter'"
proof -
  from assms have "dec_nat vu @ CHR ''-'' # dec_nat iter = dec_nat vu' @ CHR ''-'' # dec_nat iter'"
    by (simp add: serial_number_def)
  then have "dec_nat vu = dec_nat vu' \<and> dec_nat iter = dec_nat iter'"
    by (rule split_at_separator) (simp_all add: dec_nat_free)
  then show ?thesis
    by (simp add: dec_nat_inj)
qed

lemma escape_digit: "c \<in> set ''0123456789'' \<Longrightarrow> escape_char c = [c]"
  by (auto simp: escape_char_def)

lemma escape_digits: "set s \<subseteq> set ''0123456789'' \<Longrightarrow> concat (map escape_char s) = s"
proof (induction s)
  case Nil
  then show ?case by simp
next
  case (Cons c s)
  then have "escape_char c = [c]" and "concat (map escape_char s) = s"
    by (simp_all add: escape_digit)
  then show ?case by simp
qed

lemma quote_dec_nat: "concat (map escape_char (dec_nat n)) = dec_nat n"
  by (rule escape_digits) (rule dec_nat_digits)

text \<open>Unfolding \<open>dec_nat\<close> on literal numbers only.\<close>

lemmas dec_nat_numeral =
  dec_nat.simps [of "numeral k" for k] dec_nat.simps [of 0] dec_nat.simps [of "Suc 0"]

lemmas json_eval = quote_def escape_char_def Number_toString_def digit_char_def

lemmas payload_defs = generateOrderPayload_def orderObject_def order_record_def order_item_def
  uniqueOrderNumber_def generateMrpReprintPayload_def mrpReprintObject_def
  quote_def escape_char_def quote_dec_nat Number_toString_def dec_nat_numeral digit_char_def

text \<open>The strings that the two payload functions return.\<close>

lemma generateOrderPayload_eq:
  \<open>generateOrderPayload vu iter =
       ''{"order":[{"transactiontype":"PURCHASE_ORDER","ordernumber":"''
       @ uniqueOrderNumber vu iter
       @ ''","orderdate":"18/08/2025","ordertime":"12:16:22","plantcode":"P003","prodorderstatu''
       @ ''s":"","storagelocation":"RM03","vendorCode":"200128    ","vendorName":"GLOBAL TEXTIL''
       @ ''ES ALLIANCE PVT LTD","items":[{"itemnumber":"10","materialcode":"CB88SHFLIBLENDGJ036''
       @ ''51C001025250GSMG","materialdescription":"CB88SHFLI BLEND GJ03651-C001025 250GSM","or''
       @ ''deredquantity":1000,"confirmedgrqty":1000,"storagelocation":"RM03","uom":"M","ordern''
       @ ''umber":"''
       @ uniqueOrderNumber vu iter
       @ ''","lineorderstatus":"C","content":"","category":"","model":"","productcode":"","dime''
       @ ''nsion":"","netqty":1,"monthyear":"","mrp":0,"eannumber":"","mfgplantadd":"","custome''
       @ ''rcare":"","l1code":"99","l1text":"To be Created","l2code":"9999","l2text":"To be Cre''
       @ ''ated","l3code":"999999","l3text":"To be Created","l4code":"99999999","l4text":"To be''
       @ '' Created","l5code":"999999999999","l5text":"To be Created","l6code":"999999999999999''
       @ ''99","l6text":"To be Created","remarks":"","attr1":"0.000 ","attr2":"0.000 ","attr3":''
       @ ''"0.000 ","attr4":"","attr5":"","type":0}]}]}''\<close>
  by (simp add: payload_defs)

lemma generateMrpReprintPayload_eq:
  \<open>generateMrpReprintPayload vu iter =
     ''{"po_details_code":"a6dd5d05-318f-4bca-833d-48d01aea97a3","serial_number":"P00302H4QhG6M1b00E-''
       @ dec_nat vu @ ''-'' @ dec_nat iter @ ''"}''\<close>
  by (simp add: payload_defs serial_number_def)

lemma generate_body_string:
  \<open>JSON_stringify (JObj
     [(''product_category_code'', JNum 1),
      (''plant_code'', JStr ''P001''),
      (''procurement_type_code'', JNum 1),
      (''no_of_code'', JNum 2),
      (''user_code'', JStr ''3fa85f64-5717-4562-b3fc-2c963f66afa6'')]) =
     ''{"product_category_code":1,"plant_code":"P001","procurement_type_code":1,"no_of_code":2,"user_code":"3fa85f64-5717-4562-b3fc-2c963f66afa6"}''\<close>
  by (simp add: json_eval dec_nat_numeral)

section \<open>Identifiers in the smart-scan payloads\<close>

text \<open>
  C2. The claim asks for distinct order numbers and distinct serial numbers for distinct
  pairs (virtual-user index, iteration index), and the doc comment of
  \<open>generateOrderPayload\<close> says that the order number is made unique. The order number is
  not: virtual user 1 in its iteration 10000 and virtual user 2 in its iteration 0 both
  compute the numeric part 20000, hence the order number \<open>12345678920000\<close> and the same
  order payload. Their serial numbers, which \<open>generateMrpReprintPayload\<close> builds with a
  separator between the two indices, differ.
\<close>

theorem ordernumber_collision:
  "((1::nat), (10000::nat)) \<noteq> (2, 0) \<and>
   numericPart 1 10000 = 20000 \<and> numericPart 2 0 = 20000 \<and>
   uniqueOrderNumber 1 10000 = ''12345678920000'' \<and>
   uniqueOrderNumber 2 0 = ''12345678920000'' \<and>
   generateOrderPayload 1 10000 = generateOrderPayload 2 0 \<and>
   serial_number 1 10000 \<noteq> serial_number 2 0"
  by (simp add: generateOrderPayload_def orderObject_def uniqueOrderNumber_def number_eval
      serial_number_def dec_nat_numeral digit_char_def del: JSON_stringify.simps)

section \<open>Runs of the scripts\<close>

text \<open>Reading the requests and the log lines off a run built by appending events.\<close>

lemma requests_of_append [simp]: "requests_of (a @ b) = requests_of a @ requests_of b"
  by (induction a rule: requests_of.induct) simp_all

lemma logs_of_append [simp]: "logs_of (a @ b) = logs_of a @ logs_of b"
  by (induction a rule: logs_of.induct) simp_all

lemmas k6_defs = iteration_def and_then_def then_do_def skip_def emit_def group_def sleep_def
  http_get_def http_post_def check_def console_log_def Trend_add_def Let_def exchanges_def
  body_length_def js_gt_def

lemmas case_defs = get_case_def post_case_def

lemmas no_json = JSON_stringify.simps

lemmas url_defs = BASE_URL_def paginatedUrl_def SMART_SCAN_CAPTURE_GENERATE_ENDPOINT_def
  SMART_SCAN_CAPTURE_GET_HEADERS_ENDPOINT_def SMART_SCAN_CAPTURE_GET_DETAILS_ENDPOINT_def
  SMART_SCAN_CAPTURE_MRP_REPRINT_ENDPOINT_def

lemmas pred_defs = recorded_def body_length_def js_gt_def

lemmas cases_defs = module1_cases_def k6_script_cases_def module2_cases_def module3_cases_def
  case_defs

text \<open>
  The run of each script is the run of its sequence of test cases: the exchanges of the
  run are those of the sequence, and so are its requests.
\<close>

lemma module1_run:
  "exchanges (module1_default srv) = run_cases srv [] module1_cases \<and>
   requests_of (module1_default srv) = map ex_request (run_cases srv [] module1_cases)"
  by (simp add: module1_default_def module1_cases_def case_defs k6_defs
      del: no_json split: option.split)

lemma k6_script_run:
  "exchanges (k6_script_default d srv) = run_cases srv [] (k6_script_cases d) \<and>
   requests_of (k6_script_default d srv) = map ex_request (run_cases srv [] (k6_script_cases d))"
  by (simp add: k6_script_default_def k6_script_cases_def case_defs k6_defs
      del: no_json split: option.split)

lemma module2_run:
  "exchanges (module2_default srv) = run_cases srv [] module2_cases \<and>
   requests_of (module2_default srv) = map ex_request (run_cases srv [] module2_cases)"
  by (simp add: module2_default_def module2_cases_def case_defs k6_defs
      del: no_json split: option.split)

lemma module3_run:
  "exchanges (module3_default vu iter srv) = run_cases srv [] (module3_cases vu iter) \<and>
   requests_of (module3_default vu iter srv)
     = map ex_request (run_cases srv [] (module3_cases vu iter))"
  by (simp add: module3_default_def module3_cases_def case_defs k6_defs
      del: no_json split: option.split)

subsection \<open>Runs of test cases\<close>

text \<open>
  What holds of the record of every test case on every response holds of every exchange of
  a run, and what holds of the records of a test case on any two responses holds of the
  exchanges at the same place of two runs.
\<close>

lemma run_cases_all:
  assumes "\<And>rq cs r. (rq, cs) \<in> set cases \<Longrightarrow> P (recorded rq cs r)"
  shows "\<forall>ex \<in> set (run_cases srv hist cases). P ex"
  using assms
proof (induction cases arbitrary: hist)
  case Nil
  then show ?case by simp
next
  case (Cons c cases)
  obtain rq cs where c: "c = (rq, cs)"
    by (cases c)
  obtain outs exc where rp: "run_predicates (srv hist rq) cs = (outs, exc)"
    by (cases "run_predicates (srv hist rq) cs")
  from Cons.prems [of rq cs "srv hist rq"] c rp
  have here: "P \<lparr>ex_request = rq, ex_response = srv hist rq, ex_outcomes = outs\<rparr>"
    by (simp add: recorded_def)
  from Cons have rest: "\<forall>ex \<in> set (run_cases srv (hist @ [rq]) cases). P ex"
    by simp
  from here rest show ?case
    unfolding c by (cases exc) (simp_all add: rp)
qed

lemma run_cases_zip:
  assumes "\<And>rq cs r r'. (rq, cs) \<in> set cases \<Longrightarrow> Q (recorded rq cs r) (recorded rq cs r')"
  shows "\<forall>p \<in> set (zip (run_cases srv hist cases) (run_cases srv' hist' cases)).
           Q (fst p) (snd p)"
  using assms
proof (induction cases arbitrary: hist hist')
  case Nil
  then show ?case by simp
next
  case (Cons c cases)
  obtain rq cs where c: "c = (rq, cs)"
    by (cases c)
  obtain outs exc where rp: "run_predicates (srv hist rq) cs = (outs, exc)"
    by (cases "run_predicates (srv hist rq) cs")
  obtain outs' exc' where rp': "run_predicates (srv' hist' rq) cs = (outs', exc')"
    by (cases "run_predicates (srv' hist' rq) cs")
  from Cons.prems [of rq cs "srv hist rq" "srv' hist' rq"] c rp rp'
  have here: "Q \<lparr>ex_request = rq, ex_response = srv hist rq, ex_outcomes = outs\<rparr>
      \<lparr>ex_request = rq, ex_response = srv' hist' rq, ex_outcomes = outs'\<rparr>"
    by (simp add: recorded_def)
  from Cons have rest: "\<forall>p \<in> set (zip (run_cases srv (hist @ [rq]) cases)
      (run_cases srv' (hist' @ [rq]) cases)). Q (fst p) (snd p)"
    by simp
  from here rest show ?case
    unfolding c by (cases exc; cases exc') (simp_all add: rp rp')
qed

text \<open>
  The requests of a run are the first requests of the sequence; they are all of them when
  no predicate throws, as is the case against a server whose responses all carry a body.
\<close>

lemma run_cases_prefix: "prefix (map ex_request (run_cases srv hist cases)) (map fst cases)"
proof (induction cases arbitrary: hist)
  case Nil
  then show ?case by simp
next
  case (Cons c cases)
  obtain rq cs where c: "c = (rq, cs)"
    by (cases c)
  obtain outs exc where rp: "run_predicates (srv hist rq) cs = (outs, exc)"
    by (cases "run_predicates (srv hist rq) cs")
  from Cons [of "hist @ [rq]"] show ?case
    unfolding c by (cases exc) (simp_all add: rp)
qed

lemma run_cases_full:
  assumes "answers_with_body srv" and "\<forall>c \<in> set cases. safe_with_body c"
  shows "map ex_request (run_cases srv hist cases) = map fst cases"
  using assms(2)
proof (induction cases arbitrary: hist)
  case Nil
  then show ?case by simp
next
  case (Cons c cases)
  obtain rq cs where c: "c = (rq, cs)"
    by (cases c)
  obtain outs exc where rp: "run_predicates (srv hist rq) cs = (outs, exc)"
    by (cases "run_predicates (srv hist rq) cs")
  from assms(1) have "body (srv hist rq) \<noteq> None"
    by (simp add: answers_with_body_def)
  moreover from Cons.prems c have "safe_with_body (rq, cs)"
    by simp
  ultimately have "snd (run_predicates (srv hist rq) cs) = None"
    unfolding safe_with_body_def by fastforce
  with rp have "exc = None"
    by simp
  moreover from Cons have "map ex_request (run_cases srv (hist @ [rq]) cases) = map fst cases"
    by simp
  ultimately show ?case
    unfolding c by (simp add: rp)
qed

lemma run_cases_nonempty: "run_cases srv hist (c # cases) \<noteq> []"
  by (cases c) (simp split: prod.split option.split)

text \<open>The response of every exchange is the answer of the server to its request.\<close>

lemma run_cases_answers:
  "map ex_response (run_cases srv hist cases)
     = answers srv hist (map ex_request (run_cases srv hist cases))"
proof (induction cases arbitrary: hist)
  case Nil
  then show ?case by simp
next
  case (Cons c cases)
  obtain rq cs where c: "c = (rq, cs)"
    by (cases c)
  obtain outs exc where rp: "run_predicates (srv hist rq) cs = (outs, exc)"
    by (cases "run_predicates (srv hist rq) cs")
  from Cons [of "hist @ [rq]"] show ?case
    unfolding c by (cases exc) (simp_all add: rp)
qed

text \<open>Against a server that gives one response with a body to every request.\<close>

lemma run_cases_fixed:
  assumes "body r \<noteq> None" and "\<forall>c \<in> set cases. safe_with_body c"
  shows "run_cases (fixed_server r) hist cases = map (\<lambda>c. recorded (fst c) (snd c) r) cases"
  using assms(2)
proof (induction cases arbitrary: hist)
  case Nil
  then show ?case by simp
next
  case (Cons c cases)
  obtain rq cs where c: "c = (rq, cs)"
    by (cases c)
  obtain outs exc where rp: "run_predicates r cs = (outs, exc)"
    by (cases "run_predicates r cs")
  from Cons.prems c have "safe_with_body (rq, cs)"
    by simp
  with assms(1) have "snd (run_predicates r cs) = None"
    unfolding safe_with_body_def by fastforce
  with rp have "exc = None"
    by simp
  moreover from Cons
  have "run_cases (fixed_server r) (hist @ [rq]) cases
      = map (\<lambda>c. recorded (fst c) (snd c) r) cases"
    by simp
  moreover have "fixed_server r hist rq = r"
    by (simp add: fixed_server_def)
  ultimately show ?case
    unfolding c by (simp add: rp recorded_def)
qed

lemma fixed_server_answers_with_body: "body r \<noteq> None \<Longrightarrow> answers_with_body (fixed_server r)"
  by (simp add: answers_with_body_def fixed_server_def)


lemma prefix_filter_empty:
  assumes "prefix xs ys" and "filter P ys = []"
  shows "filter P xs = []"
proof -
  from assms(1) obtain zs where "ys = xs @ zs"
    by (auto simp: prefix_def)
  with assms(2) show ?thesis
    by simp
qed

lemma filter_first_only:
  assumes "prefix xs (y # ys)" and "xs \<noteq> []" and "P y" and "filter P ys = []"
  shows "filter P xs = [y]"
proof -
  from assms(1,2) obtain zs where xs: "xs = y # zs" and "prefix zs ys"
    by (auto simp: prefix_Cons)
  from this(2) assms(4) have "filter P zs = []"
    by (rule prefix_filter_empty)
  with xs assms(3) show ?thesis
    by simp
qed

subsection \<open>The four scripts\<close>

text \<open>No predicate of the scripts throws on a response with a body.\<close>

lemma module1_safe: "\<forall>c \<in> set module1_cases. safe_with_body c"
  by (simp add: module1_cases_def case_defs safe_with_body_def pred_defs split: option.split)

lemma k6_script_safe: "\<forall>c \<in> set (k6_script_cases d). safe_with_body c"
  by (simp add: k6_script_cases_def case_defs safe_with_body_def pred_defs split: option.split)

lemma module2_safe: "\<forall>c \<in> set module2_cases. safe_with_body c"
  by (simp add: module2_cases_def case_defs safe_with_body_def pred_defs split: option.split)

lemma module3_safe: "\<forall>c \<in> set (module3_cases vu iter). safe_with_body c"
  by (simp add: module3_cases_def case_defs safe_with_body_def pred_defs split: option.split)

text \<open>
  In every run, each request is followed by one check, and the response checked is the
  one the server gave to that request.
\<close>

lemma module1_exchanges_sound:
  "map ex_request (exchanges (module1_default srv)) = requests_of (module1_default srv) \<and>
   map ex_response (exchanges (module1_default srv))
     = answers srv [] (requests_of (module1_default srv))"
  using run_cases_answers [of srv "[]" module1_cases] by (simp add: module1_run)

lemma k6_script_exchanges_sound:
  "map ex_request (exchanges (k6_script_default d srv)) = requests_of (k6_script_default d srv) \<and>
   map ex_response (exchanges (k6_script_default d srv))
     = answers srv [] (requests_of (k6_script_default d srv))"
  using run_cases_answers [of srv "[]" "k6_script_cases d"] by (simp add: k6_script_run)

lemma module2_exchanges_sound:
  "map ex_request (exchanges (module2_default srv)) = requests_of (module2_default srv) \<and>
   map ex_response (exchanges (module2_default srv))
     = answers srv [] (requests_of (module2_default srv))"
  using run_cases_answers [of srv "[]" module2_cases] by (simp add: module2_run)

lemma module3_exchanges_sound:
  "map ex_request (exchanges (module3_default vu iter srv))
     = requests_of (module3_default vu iter srv) \<and>
   map ex_response (exchanges (module3_default vu iter srv))
     = answers srv [] (requests_of (module3_default vu iter srv))"
  using run_cases_answers [of srv "[]" "module3_cases vu iter"] by (simp add: module3_run)

text \<open>Against a server whose responses all carry a body, every request is sent.\<close>

lemma all_requests_of_cases:
  assumes run: "\<And>srv. requests_of (run srv) = map ex_request (run_cases srv [] cases)"
    and safe: "\<forall>c \<in> set cases. safe_with_body c"
    and body: "answers_with_body srv"
  shows "requests_of (run srv) = map fst cases"
  unfolding run using body safe by (rule run_cases_full)

lemma all_exchanges_of_cases:
  assumes run: "\<And>srv. exchanges (run srv) = run_cases srv [] cases"
    and safe: "\<forall>c \<in> set cases. safe_with_body c"
    and body: "answers_with_body srv"
  shows "length (exchanges (run srv)) = length cases"
proof -
  from body safe have "map ex_request (run_cases srv [] cases) = map fst cases"
    by (rule run_cases_full)
  then have "length (map ex_request (run_cases srv [] cases)) = length (map fst cases)"
    by (rule arg_cong)
  then show ?thesis
    by (simp add: run)
qed

lemma module1_all_requests:
  "answers_with_body srv \<Longrightarrow> requests_of (module1_default srv) = map fst module1_cases"
  using module1_run [THEN conjunct2] module1_safe by (rule all_requests_of_cases)

lemma k6_script_all_requests:
  "answers_with_body srv \<Longrightarrow>
   requests_of (k6_script_default d srv) = map fst (k6_script_cases d)"
  using k6_script_run [THEN conjunct2] k6_script_safe by (rule all_requests_of_cases)

lemma module2_all_requests:
  "answers_with_body srv \<Longrightarrow> requests_of (module2_default srv) = map fst module2_cases"
  using module2_run [THEN conjunct2] module2_safe by (rule all_requests_of_cases)

lemma module3_all_requests:
  "answers_with_body srv \<Longrightarrow>
   requests_of (module3_default vu iter srv) = map fst (module3_cases vu iter)"
  using module3_run [THEN conjunct2] module3_safe by (rule all_requests_of_cases)

lemma module1_at_fixed:
  assumes "body r \<noteq> None"
  shows "exchanges (module1_default (fixed_server r))
     = map (\<lambda>c. recorded (fst c) (snd c) r) module1_cases"
  unfolding module1_run [THEN conjunct1] using assms module1_safe by (rule run_cases_fixed)

lemma module2_at_fixed:
  assumes "body r \<noteq> None"
  shows "exchanges (module2_default (fixed_server r))
     = map (\<lambda>c. recorded (fst c) (snd c) r) module2_cases"
  unfolding module2_run [THEN conjunct1] using assms module2_safe by (rule run_cases_fixed)

lemma module3_at_fixed:
  assumes "body r \<noteq> None"
  shows "exchanges (module3_default vu iter (fixed_server r))
     = map (\<lambda>c. recorded (fst c) (snd c) r) (module3_cases vu iter)"
  unfolding module3_run [THEN conjunct1] using assms module3_safe by (rule run_cases_fixed)

section \<open>Non-empty bodies\<close>

lemma module1_body_checked:
  "\<forall>ex \<in> set (exchanges (module1_default srv)). body_checked ex"
  unfolding module1_run [THEN conjunct1]
  by (rule run_cases_all)
    (auto simp: cases_defs body_checked_def all_passed_def pred_defs split: option.split)

lemma k6_script_body_checked:
  "\<forall>ex \<in> set (exchanges (k6_script_default d srv)). body_checked ex"
  unfolding k6_script_run [THEN conjunct1]
  by (rule run_cases_all)
    (auto simp: cases_defs body_checked_def all_passed_def pred_defs split: option.split)

lemma module2_body_checked:
  "\<forall>ex \<in> set (exchanges (module2_default srv)). body_checked ex"
  unfolding module2_run [THEN conjunct1]
  by (rule run_cases_all)
    (auto simp: cases_defs body_checked_def all_passed_def pred_defs split: option.split)

lemma module3_body_checked:
  "\<forall>ex \<in> set (exchanges (module3_default vu iter srv)).
     (req_method (ex_request ex) = GET \<longrightarrow> body_checked ex) \<and>
     (req_method (ex_request ex) = POST \<longrightarrow> status_only ex)"
  unfolding module3_run [THEN conjunct1]
  by (rule run_cases_all)
    (auto simp: cases_defs body_checked_def status_only_def all_passed_def pred_defs
      split: option.split)

text \<open>
  C1, as amended. Every check of the module 1, paginated and module 2 scripts, and every
  check on the response to a GET request of the smart-scan script, includes a non-empty-body
  predicate: when the body of the response has length 0, at least one predicate of the
  check fails, whatever the status code. The checks on the responses to the two POST
  requests of the smart-scan script (generate and mrp-reprint) consist of the status
  predicate only, which passes on 200 and on 201.
\<close>

theorem body_checked_except_smartscan_posts:
  "(\<forall>run \<in> set [module1_default, k6_script_default d, module2_default].
      \<forall>ex \<in> set (exchanges (run srv)). body_checked ex) \<and>
   (\<forall>ex \<in> set (exchanges (module3_default vu iter srv)).
      (req_method (ex_request ex) = GET \<longrightarrow> body_checked ex) \<and>
      (req_method (ex_request ex) = POST \<longrightarrow> status_only ex))"
  using module1_body_checked [of srv] k6_script_body_checked [of d srv]
    module2_body_checked [of srv] module3_body_checked [of vu iter srv]
  by simp

lemma module1_at_ok_empty:
  "exchanges (module1_default (fixed_server ok_empty))
     = map (\<lambda>c. recorded (fst c) (snd c) ok_empty) module1_cases"
  unfolding module1_run [THEN conjunct1]
  by (simp add: cases_defs fixed_server_def ok_empty_def pred_defs)

lemma module3_at_ok_empty:
  "exchanges (module3_default 1 0 (fixed_server ok_empty))
     = map (\<lambda>c. recorded (fst c) (snd c) ok_empty) (module3_cases 1 0)"
  unfolding module3_run [THEN conjunct1]
  by (simp add: cases_defs fixed_server_def ok_empty_def pred_defs)

text \<open>
  C1, witness: against a server that answers 200 with an empty body, the first check of
  module 1 and the third check of the smart-scan script (on a GET) record a failure, and
  the second check of the smart-scan script (on a POST) records the one outcome of its
  status predicate.
\<close>

theorem body_checked_witness:
  "exchanges (module1_default (fixed_server ok_empty)) ! 0
     \<in> set (exchanges (module1_default (fixed_server ok_empty))) \<and>
   body_length (ex_response (exchanges (module1_default (fixed_server ok_empty)) ! 0)) = Inr 0 \<and>
   \<not> all_passed (exchanges (module1_default (fixed_server ok_empty)) ! 0) \<and>
   exchanges (module3_default 1 0 (fixed_server ok_empty)) ! 2
     \<in> set (exchanges (module3_default 1 0 (fixed_server ok_empty))) \<and>
   req_method (ex_request (exchanges (module3_default 1 0 (fixed_server ok_empty)) ! 2)) = GET \<and>
   \<not> all_passed (exchanges (module3_default 1 0 (fixed_server ok_empty)) ! 2) \<and>
   exchanges (module3_default 1 0 (fixed_server ok_empty)) ! 1
     \<in> set (exchanges (module3_default 1 0 (fixed_server ok_empty))) \<and>
   req_method (ex_request (exchanges (module3_default 1 0 (fixed_server ok_empty)) ! 1)) = POST \<and>
   map snd (ex_outcomes (exchanges (module3_default 1 0 (fixed_server ok_empty)) ! 1)) = [True]"
proof -
  have m1: "exchanges (module1_default (fixed_server ok_empty)) ! 0
      \<in> set (exchanges (module1_default (fixed_server ok_empty)))"
    and e1: "body_length (ex_response (exchanges (module1_default (fixed_server ok_empty)) ! 0))
      = Inr 0"
    unfolding module1_at_ok_empty
    by (simp_all add: cases_defs recorded_def body_length_def ok_empty_def)
  have m3: "exchanges (module3_default 1 0 (fixed_server ok_empty)) ! 2
      \<in> set (exchanges (module3_default 1 0 (fixed_server ok_empty)))"
    and g3: "req_method (ex_request (exchanges (module3_default 1 0 (fixed_server ok_empty)) ! 2))
      = GET"
    and e3: "body_length (ex_response (exchanges (module3_default 1 0 (fixed_server ok_empty)) ! 2))
      = Inr 0"
    and m2: "exchanges (module3_default 1 0 (fixed_server ok_empty)) ! 1
      \<in> set (exchanges (module3_default 1 0 (fixed_server ok_empty)))"
    and p2: "req_method (ex_request (exchanges (module3_default 1 0 (fixed_server ok_empty)) ! 1))
      = POST"
    and s2: "status (ex_response (exchanges (module3_default 1 0 (fixed_server ok_empty)) ! 1))
      = 200"
    unfolding module3_at_ok_empty
    by (simp_all add: cases_defs recorded_def body_length_def ok_empty_def)
  note t = body_checked_except_smartscan_posts [of one_half "fixed_server ok_empty" 1 0]
  from t m1 have "body_checked (exchanges (module1_default (fixed_server ok_empty)) ! 0)"
    by simp
  with e1 have a: "\<not> all_passed (exchanges (module1_default (fixed_server ok_empty)) ! 0)"
    by (simp add: body_checked_def)
  from t m3 g3 have "body_checked (exchanges (module3_default 1 0 (fixed_server ok_empty)) ! 2)"
    by blast
  with e3 have b: "\<not> all_passed (exchanges (module3_default 1 0 (fixed_server ok_empty)) ! 2)"
    by (simp add: body_checked_def)
  from t m2 p2 have "status_only (exchanges (module3_default 1 0 (fixed_server ok_empty)) ! 1)"
    by blast
  with s2 have c: "map snd (ex_outcomes (exchanges (module3_default 1 0 (fixed_server ok_empty)) ! 1))
      = [True]"
    by (simp add: status_only_def)
  from m1 e1 a m3 g3 b m2 p2 c show ?thesis
    by (intro conjI)
qed

text \<open>
  C1, as stated, fails: against the same server, the checks on the responses to
  \<open>POST /api/smartscancapture/generate\<close> and to \<open>POST /api/smartscancapture/mrp-reprint\<close>
  are made on a body of length 0 and every one of their predicates passes.
\<close>

theorem smartscan_post_checks_pass_empty_body:
  "module3_default 1 0 \<in> set (scripts 1 0 one_half) \<and>
   exchanges (module3_default 1 0 (fixed_server ok_empty)) ! 0
     \<in> set (exchanges (module3_default 1 0 (fixed_server ok_empty))) \<and>
   url (ex_request (exchanges (module3_default 1 0 (fixed_server ok_empty)) ! 0))
     = BASE_URL @ ''/api/smartscancapture/generate'' \<and>
   body_length (ex_response (exchanges (module3_default 1 0 (fixed_server ok_empty)) ! 0)) = Inr 0 \<and>
   all_passed (exchanges (module3_default 1 0 (fixed_server ok_empty)) ! 0) \<and>
   exchanges (module3_default 1 0 (fixed_server ok_empty)) ! 1
     \<in> set (exchanges (module3_default 1 0 (fixed_server ok_empty))) \<and>
   url (ex_request (exchanges (module3_default 1 0 (fixed_server ok_empty)) ! 1))
     = BASE_URL @ ''/api/smartscancapture/mrp-reprint'' \<and>
   body_length (ex_response (exchanges (module3_default 1 0 (fixed_server ok_empty)) ! 1)) = Inr 0 \<and>
   all_passed (exchanges (module3_default 1 0 (fixed_server ok_empty)) ! 1)"
  unfolding module3_at_ok_empty
  by (simp add: scripts_def cases_defs recorded_def body_length_def
      ok_empty_def all_passed_def SMART_SCAN_CAPTURE_GENERATE_ENDPOINT_def
      SMART_SCAN_CAPTURE_MRP_REPRINT_ENDPOINT_def)

section \<open>Status predicates\<close>

lemmas c3_defs = get_200_def post_201_def post_200_201_def status_outcome_def

lemma module1_status:
  "\<forall>ex \<in> set (exchanges (module1_default srv)). get_200 ex \<and> post_201 ex"
  unfolding module1_run [THEN conjunct1]
  by (rule run_cases_all) (auto simp: cases_defs c3_defs pred_defs split: option.split)

lemma k6_script_status:
  "\<forall>ex \<in> set (exchanges (k6_script_default d srv)). get_200 ex \<and> post_201 ex"
  unfolding k6_script_run [THEN conjunct1]
  by (rule run_cases_all) (auto simp: cases_defs c3_defs pred_defs split: option.split)

lemma module2_status:
  "\<forall>ex \<in> set (exchanges (module2_default srv)). get_200 ex \<and> post_201 ex"
  unfolding module2_run [THEN conjunct1]
  by (rule run_cases_all) (auto simp: cases_defs c3_defs pred_defs split: option.split)

lemma module3_status:
  "\<forall>ex \<in> set (exchanges (module3_default vu iter srv)). get_200 ex \<and> post_200_201 ex"
  unfolding module3_run [THEN conjunct1]
  by (rule run_cases_all) (auto simp: cases_defs c3_defs pred_defs split: option.split)

text \<open>
  C3. In every script, the status predicate of a check on the response to a GET request
  passes exactly when the status code is 200. The status predicate of a check on the
  response to a POST request passes exactly when the status code is 201 in the module 1,
  paginated and module 2 scripts, and exactly when it is 200 or 201 in the smart-scan
  script.
\<close>

theorem status_predicates:
  "(\<forall>run \<in> set [module1_default, k6_script_default d, module2_default].
      \<forall>ex \<in> set (exchanges (run srv)). get_200 ex \<and> post_201 ex) \<and>
   (\<forall>ex \<in> set (exchanges (module3_default vu iter srv)). get_200 ex \<and> post_200_201 ex)"
  using module1_status [of srv] k6_script_status [of d srv] module2_status [of srv]
    module3_status [of vu iter srv]
  by simp

text \<open>
  C3, witness: against a server that answers 200 with the body \<open>[]\<close>, the status
  predicate passes on the first response of module 1 (a GET), fails on its second (a POST),
  and passes on the first response of the smart-scan script (a POST).
\<close>

theorem status_predicates_witness:
  "exchanges (module1_default (fixed_server ok_text)) ! 0
     \<in> set (exchanges (module1_default (fixed_server ok_text))) \<and>
   req_method (ex_request (exchanges (module1_default (fixed_server ok_text)) ! 0)) = GET \<and>
   status_outcome (exchanges (module1_default (fixed_server ok_text)) ! 0) = Some True \<and>
   exchanges (module1_default (fixed_server ok_text)) ! 1
     \<in> set (exchanges (module1_default (fixed_server ok_text))) \<and>
   req_method (ex_request (exchanges (module1_default (fixed_server ok_text)) ! 1)) = POST \<and>
   status_outcome (exchanges (module1_default (fixed_server ok_text)) ! 1) = Some False \<and>
   exchanges (module3_default 1 0 (fixed_server ok_text)) ! 0
     \<in> set (exchanges (module3_default 1 0 (fixed_server ok_text))) \<and>
   req_method (ex_request (exchanges (module3_default 1 0 (fixed_server ok_text)) ! 0)) = POST \<and>
   status_outcome (exchanges (module3_default 1 0 (fixed_server ok_text)) ! 0) = Some True"
proof -
  have body: "body ok_text \<noteq> None"
    by (simp add: ok_text_def)
  have m0: "exchanges (module1_default (fixed_server ok_text)) ! 0
      \<in> set (exchanges (module1_default (fixed_server ok_text)))"
    and m1: "exchanges (module1_default (fixed_server ok_text)) ! 1
      \<in> set (exchanges (module1_default (fixed_server ok_text)))"
    and g0: "req_method (ex_request (exchanges (module1_default (fixed_server ok_text)) ! 0)) = GET"
    and p1: "req_method (ex_request (exchanges (module1_default (fixed_server ok_text)) ! 1)) = POST"
    and r0: "ex_response (exchanges (module1_default (fixed_server ok_text)) ! 0) = ok_text"
    and r1: "ex_response (exchanges (module1_default (fixed_server ok_text)) ! 1) = ok_text"
    unfolding module1_at_fixed [OF body] by (simp_all add: cases_defs recorded_def)
  have s0: "exchanges (module3_default 1 0 (fixed_server ok_text)) ! 0
      \<in> set (exchanges (module3_default 1 0 (fixed_server ok_text)))"
    and q0: "req_method (ex_request (exchanges (module3_default 1 0 (fixed_server ok_text)) ! 0)) = POST"
    and t0: "ex_response (exchanges (module3_default 1 0 (fixed_server ok_text)) ! 0) = ok_text"
    unfolding module3_at_fixed [OF body] by (simp_all add: cases_defs recorded_def)
  note t = status_predicates [of one_half "fixed_server ok_text" 1 0]
  from t m0 have "get_200 (exchanges (module1_default (fixed_server ok_text)) ! 0)"
    by simp
  with g0 r0 have a: "status_outcome (exchanges (module1_default (fixed_server ok_text)) ! 0) = Some True"
    by (simp add: get_200_def ok_text_def)
  from t m1 have "post_201 (exchanges (module1_default (fixed_server ok_text)) ! 1)"
    by simp
  with p1 r1 have b: "status_outcome (exchanges (module1_default (fixed_server ok_text)) ! 1) = Some False"
    by (simp add: post_201_def ok_text_def)
  from t s0 have "post_200_201 (exchanges (module3_default 1 0 (fixed_server ok_text)) ! 0)"
    by blast
  with q0 t0 have c: "status_outcome (exchanges (module3_default 1 0 (fixed_server ok_text)) ! 0) = Some True"
    by (simp add: post_200_201_def ok_text_def)
  from m0 g0 a m1 p1 b s0 q0 c show ?thesis
    by (intro conjI)
qed

section \<open>The body of \<open>POST /api/serialcode/generate\<close>\<close>

lemma calls_of_cases:
  assumes run: "\<And>srv. requests_of (run srv) = map ex_request (run_cases srv [] cases)"
    and all: "\<forall>rq \<in> set (map fst cases). endpoint rq = u \<longrightarrow> P rq"
  shows "\<forall>rq \<in> set (filter (\<lambda>rq. endpoint rq = u) (requests_of (run srv))). P rq"
proof -
  have "prefix (requests_of (run srv)) (map fst cases)"
    unfolding run by (rule run_cases_prefix)
  then have "set (requests_of (run srv)) \<subseteq> set (map fst cases)"
    by (rule set_mono_prefix)
  with all show ?thesis
    by auto
qed

lemma no_calls_of_cases:
  assumes run: "\<And>srv. requests_of (run srv) = map ex_request (run_cases srv [] cases)"
    and none: "filter (\<lambda>rq. endpoint rq = u) (map fst cases) = []"
  shows "filter (\<lambda>rq. endpoint rq = u) (requests_of (run srv)) = []"
proof -
  have "prefix (requests_of (run srv)) (map fst cases)"
    unfolding run by (rule run_cases_prefix)
  then show ?thesis
    using none by (rule prefix_filter_empty)
qed

lemma module1_generate_calls:
  \<open>\<forall>rq \<in> set (serialcode_generate_calls (module1_default srv)).
     req_method rq = POST \<and> payload rq = Some ''{"product_category_code":1,"plant_code":"P001","procurement_type_code":1,"no_of_code":2,"user_code":"3fa85f64-5717-4562-b3fc-2c963f66afa6"}''\<close>
  unfolding serialcode_generate_calls_def
  using module1_run [THEN conjunct2]
  by (rule calls_of_cases) (simp add: cases_defs endpoint_def url_defs json_eval dec_nat_numeral)

lemma k6_script_generate_calls:
  \<open>\<forall>rq \<in> set (serialcode_generate_calls (k6_script_default d srv)).
     req_method rq = POST \<and> payload rq = Some ''{"product_category_code":1,"plant_code":"P001","procurement_type_code":1,"no_of_code":2,"user_code":"3fa85f64-5717-4562-b3fc-2c963f66afa6"}''\<close>
  unfolding serialcode_generate_calls_def
  using k6_script_run [THEN conjunct2]
  by (rule calls_of_cases) (simp add: cases_defs endpoint_def url_defs json_eval dec_nat_numeral)

lemma module2_generate_calls: "serialcode_generate_calls (module2_default srv) = []"
  unfolding serialcode_generate_calls_def
  using module2_run [THEN conjunct2]
  by (rule no_calls_of_cases) (simp add: cases_defs endpoint_def url_defs)

lemma module3_generate_calls: "serialcode_generate_calls (module3_default vu iter srv) = []"
  unfolding serialcode_generate_calls_def
  using module3_run [THEN conjunct2]
  by (rule no_calls_of_cases) (simp add: cases_defs endpoint_def url_defs)

lemma generate_calls_with_body:
  assumes "answers_with_body srv"
  shows \<open>map (\<lambda>run. map payload (serialcode_generate_calls (run srv))) (scripts vu iter d) =
     [[Some ''{"product_category_code":1,"plant_code":"P001","procurement_type_code":1,"no_of_code":2,"user_code":"3fa85f64-5717-4562-b3fc-2c963f66afa6"}''],
      [Some ''{"product_category_code":1,"plant_code":"P001","procurement_type_code":1,"no_of_code":2,"user_code":"3fa85f64-5717-4562-b3fc-2c963f66afa6"}''],
      [], []] \<and>
   map (\<lambda>run. map req_method (serialcode_generate_calls (run srv))) (scripts vu iter d) =
     [[POST], [POST], [], []]\<close>
  using assms
  by (simp add: scripts_def serialcode_generate_calls_def module1_all_requests
      k6_script_all_requests module2_all_requests module3_all_requests cases_defs endpoint_def
      url_defs json_eval dec_nat_numeral)

text \<open>
  C4. Every request that a script sends to \<open>/api/serialcode/generate\<close> is a POST with
  one and the same body: the serialization of the object with the keys
  \<open>product_category_code\<close>, \<open>plant_code\<close>, \<open>procurement_type_code\<close>, \<open>no_of_code\<close> and
  \<open>user_code\<close>, in this order, and the values 1, \<open>P001\<close>, 1, 2 and
  \<open>3fa85f64-5717-4562-b3fc-2c963f66afa6\<close>. Module 2 and the smart-scan script never call
  the endpoint; module 1 and the paginated script call it once each in an iteration whose
  responses all carry a body.
\<close>

theorem serialcode_generate_body:
  \<open>(\<forall>run \<in> set (scripts vu iter d). \<forall>rq \<in> set (serialcode_generate_calls (run srv)).
      req_method rq = POST \<and> payload rq = Some ''{"product_category_code":1,"plant_code":"P001","procurement_type_code":1,"no_of_code":2,"user_code":"3fa85f64-5717-4562-b3fc-2c963f66afa6"}'') \<and>
   serialcode_generate_calls (module2_default srv) = [] \<and>
   serialcode_generate_calls (module3_default vu iter srv) = [] \<and>
   (answers_with_body srv \<longrightarrow>
      map (\<lambda>run. map payload (serialcode_generate_calls (run srv))) (scripts vu iter d) =
        [[Some ''{"product_category_code":1,"plant_code":"P001","procurement_type_code":1,"no_of_code":2,"user_code":"3fa85f64-5717-4562-b3fc-2c963f66afa6"}''],
         [Some ''{"product_category_code":1,"plant_code":"P001","procurement_type_code":1,"no_of_code":2,"user_code":"3fa85f64-5717-4562-b3fc-2c963f66afa6"}''],
         [], []] \<and>
      map (\<lambda>run. map req_method (serialcode_generate_calls (run srv))) (scripts vu iter d) =
        [[POST], [POST], [], []]) \<and>
   JSON_stringify (JObj
     [(''product_category_code'', JNum 1),
      (''plant_code'', JStr ''P001''),
      (''procurement_type_code'', JNum 1),
      (''no_of_code'', JNum 2),
      (''user_code'', JStr ''3fa85f64-5717-4562-b3fc-2c963f66afa6'')]) =
     ''{"product_category_code":1,"plant_code":"P001","procurement_type_code":1,"no_of_code":2,"user_code":"3fa85f64-5717-4562-b3fc-2c963f66afa6"}''\<close>
proof (intro conjI impI)
  show \<open>\<forall>run \<in> set (scripts vu iter d). \<forall>rq \<in> set (serialcode_generate_calls (run srv)).
      req_method rq = POST \<and> payload rq = Some ''{"product_category_code":1,"plant_code":"P001","procurement_type_code":1,"no_of_code":2,"user_code":"3fa85f64-5717-4562-b3fc-2c963f66afa6"}''\<close>
    using module1_generate_calls [of srv] k6_script_generate_calls [of d srv]
    by (simp add: scripts_def module2_generate_calls module3_generate_calls)
  show "serialcode_generate_calls (module2_default srv) = []"
    by (rule module2_generate_calls)
  show "serialcode_generate_calls (module3_default vu iter srv) = []"
    by (rule module3_generate_calls)
  show \<open>JSON_stringify (JObj
     [(''product_category_code'', JNum 1),
      (''plant_code'', JStr ''P001''),
      (''procurement_type_code'', JNum 1),
      (''no_of_code'', JNum 2),
      (''user_code'', JStr ''3fa85f64-5717-4562-b3fc-2c963f66afa6'')]) =
     ''{"product_category_code":1,"plant_code":"P001","procurement_type_code":1,"no_of_code":2,"user_code":"3fa85f64-5717-4562-b3fc-2c963f66afa6"}''\<close>
    by (rule generate_body_string)
next
  assume b: "answers_with_body srv"
  from generate_calls_with_body [OF b, of vu iter d]
  show \<open>map (\<lambda>run. map payload (serialcode_generate_calls (run srv))) (scripts vu iter d) =
        [[Some ''{"product_category_code":1,"plant_code":"P001","procurement_type_code":1,"no_of_code":2,"user_code":"3fa85f64-5717-4562-b3fc-2c963f66afa6"}''],
         [Some ''{"product_category_code":1,"plant_code":"P001","procurement_type_code":1,"no_of_code":2,"user_code":"3fa85f64-5717-4562-b3fc-2c963f66afa6"}''],
         [], []]\<close>
    by (rule conjunct1)
  from generate_calls_with_body [OF b, of vu iter d]
  show "map (\<lambda>run. map req_method (serialcode_generate_calls (run srv))) (scripts vu iter d) =
        [[POST], [POST], [], []]"
    by (rule conjunct2)
qed

text \<open>
  C4, witness: against a server that answers 200 with the body \<open>[]\<close>, module 1 and the
  paginated script send the body once each. Against a server whose responses carry no
  body, the iteration of module 1 ends before the call.
\<close>

theorem serialcode_generate_body_witness:
  \<open>answers_with_body (fixed_server ok_text) \<and>
   map (\<lambda>run. map payload (serialcode_generate_calls (run (fixed_server ok_text))))
       (scripts 1 0 one_half) =
     [[Some ''{"product_category_code":1,"plant_code":"P001","procurement_type_code":1,"no_of_code":2,"user_code":"3fa85f64-5717-4562-b3fc-2c963f66afa6"}''],
      [Some ''{"product_category_code":1,"plant_code":"P001","procurement_type_code":1,"no_of_code":2,"user_code":"3fa85f64-5717-4562-b3fc-2c963f66afa6"}''],
      [], []] \<and>
   module1_default \<in> set (scripts 1 0 one_half) \<and>
   serialcode_generate_calls (module1_default (fixed_server no_response)) = []\<close>
proof -
  have b: "answers_with_body (fixed_server ok_text)"
    by (rule fixed_server_answers_with_body) (simp add: ok_text_def)
  have m: "module1_default \<in> set (scripts 1 0 one_half)"
    by (simp add: scripts_def)
  have n: "serialcode_generate_calls (module1_default (fixed_server no_response)) = []"
    unfolding serialcode_generate_calls_def module1_run [THEN conjunct2]
    by (simp add: cases_defs fixed_server_def no_response_def pred_defs endpoint_def url_defs)
  from serialcode_generate_body [of 1 0 one_half "fixed_server ok_text"] b
  have \<open>map (\<lambda>run. map payload (serialcode_generate_calls (run (fixed_server ok_text))))
       (scripts 1 0 one_half) =
     [[Some ''{"product_category_code":1,"plant_code":"P001","procurement_type_code":1,"no_of_code":2,"user_code":"3fa85f64-5717-4562-b3fc-2c963f66afa6"}''],
      [Some ''{"product_category_code":1,"plant_code":"P001","procurement_type_code":1,"no_of_code":2,"user_code":"3fa85f64-5717-4562-b3fc-2c963f66afa6"}''],
      [], []]\<close>
    by blast
  with b m n show ?thesis
    by (intro conjI)
qed

section \<open>The sequence of requests\<close>













section \<open>The diagnostic log\<close>












section \<open>What the check predicates read\<close>

lemmas c7_defs = agree_on_outcomes_def same_status_and_length_def

lemma module1_outcomes:
  "\<forall>p \<in> set (zip (exchanges (module1_default srv)) (exchanges (module1_default srv'))).
     agree_on_outcomes (fst p) (snd p)"
  unfolding module1_run [THEN conjunct1]
  by (rule run_cases_zip) (auto simp: cases_defs c7_defs pred_defs split: option.splits)

lemma k6_script_outcomes:
  "\<forall>p \<in> set (zip (exchanges (k6_script_default d srv)) (exchanges (k6_script_default d srv'))).
     agree_on_outcomes (fst p) (snd p)"
  unfolding k6_script_run [THEN conjunct1]
  by (rule run_cases_zip) (auto simp: cases_defs c7_defs pred_defs split: option.splits)

lemma module2_outcomes:
  "\<forall>p \<in> set (zip (exchanges (module2_default srv)) (exchanges (module2_default srv'))).
     agree_on_outcomes (fst p) (snd p)"
  unfolding module2_run [THEN conjunct1]
  by (rule run_cases_zip) (auto simp: cases_defs c7_defs pred_defs split: option.splits)

lemma module3_outcomes:
  "\<forall>p \<in> set (zip (exchanges (module3_default vu iter srv))
       (exchanges (module3_default vu iter srv'))).
     agree_on_outcomes (fst p) (snd p)"
  unfolding module3_run [THEN conjunct1]
  by (rule run_cases_zip) (auto simp: cases_defs c7_defs pred_defs split: option.splits)

lemma same_length_with_body:
  assumes "answers_with_body srv" and "answers_with_body srv'"
  shows "\<forall>run \<in> set (scripts vu iter d).
           length (exchanges (run srv)) = length (exchanges (run srv'))"
proof -
  have "length (exchanges (module1_default s)) = length module1_cases"
    and "length (exchanges (k6_script_default d s)) = length (k6_script_cases d)"
    and "length (exchanges (module2_default s)) = length module2_cases"
    and "length (exchanges (module3_default vu iter s)) = length (module3_cases vu iter)"
    if "answers_with_body s" for s
    using that
    by (simp_all add: all_exchanges_of_cases [OF module1_run [THEN conjunct1] module1_safe]
        all_exchanges_of_cases [OF k6_script_run [THEN conjunct1] k6_script_safe]
        all_exchanges_of_cases [OF module2_run [THEN conjunct1] module2_safe]
        all_exchanges_of_cases [OF module3_run [THEN conjunct1] module3_safe])
  from this [OF assms(1)] this [OF assms(2)] show ?thesis
    by (simp add: scripts_def)
qed

text \<open>
  C7. Run a script against any two servers. Wherever the two responses checked at the same
  place agree on the status code and on the length of the body, every predicate of the
  check has the same outcome on both. When the responses of both servers all carry a body,
  the two runs make the same number of checks, so that every check of either run is
  compared.
\<close>

theorem outcomes_depend_on_status_and_length:
  "(\<forall>run \<in> set (scripts vu iter d).
      \<forall>p \<in> set (zip (exchanges (run srv)) (exchanges (run srv'))).
        agree_on_outcomes (fst p) (snd p)) \<and>
   (answers_with_body srv \<and> answers_with_body srv' \<longrightarrow>
      (\<forall>run \<in> set (scripts vu iter d).
         list_all2 agree_on_outcomes (exchanges (run srv)) (exchanges (run srv'))))"
proof (intro conjI impI)
  show z: "\<forall>run \<in> set (scripts vu iter d).
      \<forall>p \<in> set (zip (exchanges (run srv)) (exchanges (run srv'))).
        agree_on_outcomes (fst p) (snd p)"
    using module1_outcomes [of srv srv'] k6_script_outcomes [of d srv srv']
      module2_outcomes [of srv srv'] module3_outcomes [of vu iter srv srv']
    by (simp add: scripts_def)
  assume "answers_with_body srv \<and> answers_with_body srv'"
  then have "\<forall>run \<in> set (scripts vu iter d).
      length (exchanges (run srv)) = length (exchanges (run srv'))"
    by (simp add: same_length_with_body)
  with z show "\<forall>run \<in> set (scripts vu iter d).
      list_all2 agree_on_outcomes (exchanges (run srv)) (exchanges (run srv'))"
    unfolding list_all2_iff by (simp add: case_prod_beta)
qed

text \<open>
  C7, witness: two servers whose responses have status 200 and a body of length 2, with
  different bodies and timings; the checks of module 2 have the same outcomes on both.
\<close>

theorem outcomes_witness:
  "module2_default \<in> set (scripts 1 0 one_half) \<and>
   answers_with_body (fixed_server ok_text) \<and> answers_with_body (fixed_server ok_braces) \<and>
   same_status_and_length ok_text ok_braces \<and> ok_text \<noteq> ok_braces \<and>
   map ex_response (exchanges (module2_default (fixed_server ok_text)))
     = [ok_text, ok_text, ok_text] \<and>
   map ex_response (exchanges (module2_default (fixed_server ok_braces)))
     = [ok_braces, ok_braces, ok_braces] \<and>
   map ex_outcomes (exchanges (module2_default (fixed_server ok_text)))
     = map ex_outcomes (exchanges (module2_default (fixed_server ok_braces)))"
proof -
  have m: "module2_default \<in> set (scripts 1 0 one_half)"
    by (simp add: scripts_def)
  have bt: "body ok_text \<noteq> None" and bb: "body ok_braces \<noteq> None"
    by (simp_all add: ok_text_def ok_braces_def)
  then have a: "answers_with_body (fixed_server ok_text)"
    and a': "answers_with_body (fixed_server ok_braces)"
    by (simp_all add: fixed_server_answers_with_body)
  have s: "same_status_and_length ok_text ok_braces" and n: "ok_text \<noteq> ok_braces"
    by (simp_all add: same_status_and_length_def ok_text_def ok_braces_def)
  have r: "map ex_response (exchanges (module2_default (fixed_server ok_text)))
      = [ok_text, ok_text, ok_text]"
    unfolding module2_at_fixed [OF bt] by (simp add: cases_defs recorded_def)
  have r': "map ex_response (exchanges (module2_default (fixed_server ok_braces)))
      = [ok_braces, ok_braces, ok_braces]"
    unfolding module2_at_fixed [OF bb] by (simp add: cases_defs recorded_def)
  from outcomes_depend_on_status_and_length
    [of 1 0 one_half "fixed_server ok_text" "fixed_server ok_braces"] m a a'
  have l: "list_all2 agree_on_outcomes (exchanges (module2_default (fixed_server ok_text)))
      (exchanges (module2_default (fixed_server ok_braces)))"
    by blast
  have "list_all2 (\<lambda>ex ex'. ex_outcomes ex = ex_outcomes ex')
      (exchanges (module2_default (fixed_server ok_text)))
      (exchanges (module2_default (fixed_server ok_braces)))"
  proof (rule list.rel_mono_strong [OF l])
    fix ex ex'
    assume "ex \<in> set (exchanges (module2_default (fixed_server ok_text)))"
      and "ex' \<in> set (exchanges (module2_default (fixed_server ok_braces)))"
      and g: "agree_on_outcomes ex ex'"
    then have "ex_response ex \<in> set [ok_text, ok_text, ok_text]"
      and "ex_response ex' \<in> set [ok_braces, ok_braces, ok_braces]"
      unfolding r [symmetric] r' [symmetric] by simp_all
    then have "ex_response ex = ok_text" and "ex_response ex' = ok_braces"
      by simp_all
    with g s show "ex_outcomes ex = ex_outcomes ex'"
      by (simp add: agree_on_outcomes_def)
  qed
  then have o: "map ex_outcomes (exchanges (module2_default (fixed_server ok_text)))
     = map ex_outcomes (exchanges (module2_default (fixed_server ok_braces)))"
    by (simp add: list_all2_conv_all_nth list_eq_iff_nth_eq)
  from m a a' s n r r' o show ?thesis
    by (intro conjI)
qed

section \<open>The random page\<close>

lemma paginated_request:
  "filter (\<lambda>rq. endpoint rq = BASE_URL @ ''/api/serialcode/get-serial-codes-data'')
     (requests_of (k6_script_default d srv))
   = [\<lparr>req_method = GET, url = paginatedUrl d, payload = None, req_params = json_headers\<rparr>]"
proof (rule filter_first_only)
  have "prefix (requests_of (k6_script_default d srv)) (map fst (k6_script_cases d))"
    unfolding k6_script_run [THEN conjunct2] by (rule run_cases_prefix)
  then show "prefix (requests_of (k6_script_default d srv))
      (\<lparr>req_method = GET, url = paginatedUrl d, payload = None, req_params = json_headers\<rparr>
        # tl (map fst (k6_script_cases d)))"
    by (simp add: cases_defs)
  show "requests_of (k6_script_default d srv) \<noteq> []"
    unfolding k6_script_run [THEN conjunct2]
    by (simp add: k6_script_cases_def run_cases_nonempty)
  show "endpoint \<lparr>req_method = GET, url = paginatedUrl d, payload = None,
      req_params = json_headers\<rparr> = BASE_URL @ ''/api/serialcode/get-serial-codes-data''"
    by (simp add: endpoint_def url_defs)
  show "filter (\<lambda>rq. endpoint rq = BASE_URL @ ''/api/serialcode/get-serial-codes-data'')
      (tl (map fst (k6_script_cases d))) = []"
    by (simp add: cases_defs endpoint_def url_defs)
qed

text \<open>
  C8. For a binary64 value \<open>d\<close> of \<open>Math.random()\<close>, at least 0 and below 1, the page
  number is the floor of the binary64 product \<open>d * 100\<close>, plus 1, an integer from 1 to
  100; the page size is 50; and every iteration sends one request to
  \<open>/api/serialcode/get-serial-codes-data\<close>, with these two query parameters.
\<close>

theorem random_page_range:
  assumes "is_unit_double d"
  shows "page d = \<lfloor>times_100 d\<rfloor> + 1 \<and> 1 \<le> page d \<and> page d \<le> 100 \<and> pageSize = 50 \<and>
         map url (filter (\<lambda>rq. endpoint rq = BASE_URL @ ''/api/serialcode/get-serial-codes-data'')
                    (requests_of (k6_script_default d srv)))
           = [BASE_URL @ ''/api/serialcode/get-serial-codes-data?page=''
                @ dec_nat (nat (page d)) @ ''&pageSize=50'']"
proof -
  from assms have range: "1 \<le> page d \<and> page d \<le> 100"
    by (rule page_range)
  then have "Number_toString (page d) = dec_nat (nat (page d))"
    by (simp add: Number_toString_def)
  then have "paginatedUrl d = BASE_URL @ ''/api/serialcode/get-serial-codes-data?page=''
      @ dec_nat (nat (page d)) @ ''&pageSize=50''"
    by (simp add: paginatedUrl_def pageSize_def Number_toString_def dec_nat_numeral
        digit_char_def)
  then have "map url (filter (\<lambda>rq. endpoint rq = BASE_URL @ ''/api/serialcode/get-serial-codes-data'')
                    (requests_of (k6_script_default d srv)))
           = [BASE_URL @ ''/api/serialcode/get-serial-codes-data?page=''
                @ dec_nat (nat (page d)) @ ''&pageSize=50'']"
    by (simp add: paginated_request)
  with range page_floor [of d] show ?thesis
    by (simp add: pageSize_def)
qed

text \<open>
  C8, witness: the binary64 value nearest to seven tenths gives page 71 (the product is
  rounded to 70), and one half gives page 51.
\<close>

theorem random_page_range_witness:
  "is_unit_double seven_tenths \<and> page seven_tenths = 71 \<and>
   map url (filter (\<lambda>rq. endpoint rq = BASE_URL @ ''/api/serialcode/get-serial-codes-data'')
              (requests_of (k6_script_default seven_tenths (fixed_server ok_text))))
     = [''https://dev-durotrace-api.azurewebsites.net/api/serialcode/get-serial-codes-data?page=71&pageSize=50''] \<and>
   is_unit_double one_half \<and> page one_half = 51"
proof -
  have v: "is_unit_double seven_tenths" and w: "is_unit_double one_half"
    by (simp_all add: is_unit_double_def seven_tenths_def one_half_def)
  have p: "page seven_tenths = 71" and q: "page one_half = 51"
    by (simp_all add: page_def seven_tenths_def one_half_def round53_def bit_length_numeral
        Let_def)
  have "map url (filter (\<lambda>rq. endpoint rq = BASE_URL @ ''/api/serialcode/get-serial-codes-data'')
              (requests_of (k6_script_default seven_tenths (fixed_server ok_text))))
     = [''https://dev-durotrace-api.azurewebsites.net/api/serialcode/get-serial-codes-data?page=71&pageSize=50'']"
    using random_page_range [OF v, of "fixed_server ok_text"] unfolding p
    by (simp add: BASE_URL_def dec_nat_numeral digit_char_def)
  with v w p q show ?thesis
    by (intro conjI)
qed

section \<open>The shape of the smart-scan payloads\<close>

text \<open>
  C9. The order payload is the JSON text of an object whose only member \<open>order\<close> is an
  array of one order record; the member \<open>items\<close> of the record is an array of one item;
  the order number of the item is the order number of the record, the string
  \<open>uniqueOrderNumber\<close>; and every other member of the record and of the item is the same
  for all virtual-user and iteration indices. The text is given in full, with the order
  number at its two places.
\<close>

theorem order_payload_shape:
  \<open>generateOrderPayload vu iter =
       ''{"order":[{"transactiontype":"PURCHASE_ORDER","ordernumber":"''
       @ uniqueOrderNumber vu iter
       @ ''","orderdate":"18/08/2025","ordertime":"12:16:22","plantcode":"P003","prodorderstatu''
       @ ''s":"","storagelocation":"RM03","vendorCode":"200128    ","vendorName":"GLOBAL TEXTIL''
       @ ''ES ALLIANCE PVT LTD","items":[{"itemnumber":"10","materialcode":"CB88SHFLIBLENDGJ036''
       @ ''51C001025250GSMG","materialdescription":"CB88SHFLI BLEND GJ03651-C001025 250GSM","or''
       @ ''deredquantity":1000,"confirmedgrqty":1000,"storagelocation":"RM03","uom":"M","ordern''
       @ ''umber":"''
       @ uniqueOrderNumber vu iter
       @ ''","lineorderstatus":"C","content":"","category":"","model":"","productcode":"","dime''
       @ ''nsion":"","netqty":1,"monthyear":"","mrp":0,"eannumber":"","mfgplantadd":"","custome''
       @ ''rcare":"","l1code":"99","l1text":"To be Created","l2code":"9999","l2text":"To be Cre''
       @ ''ated","l3code":"999999","l3text":"To be Created","l4code":"99999999","l4text":"To be''
       @ '' Created","l5code":"999999999999","l5text":"To be Created","l6code":"999999999999999''
       @ ''99","l6text":"To be Created","remarks":"","attr1":"0.000 ","attr2":"0.000 ","attr3":''
       @ ''"0.000 ","attr4":"","attr5":"","type":0}]}]}'' \<and>
   generateOrderPayload vu iter = JSON_stringify (orderObject vu iter) \<and>
   keys (orderObject vu iter) = [''order''] \<and>
   member (orderObject vu iter) ''order'' = Some (JArr [order_record (uniqueOrderNumber vu iter)]) \<and>
   member (order_record (uniqueOrderNumber vu iter)) ''items''
     = Some (JArr [order_item (uniqueOrderNumber vu iter)]) \<and>
   member (order_record (uniqueOrderNumber vu iter)) ''ordernumber''
     = Some (JStr (uniqueOrderNumber vu iter)) \<and>
   member (order_item (uniqueOrderNumber vu iter)) ''ordernumber''
     = member (order_record (uniqueOrderNumber vu iter)) ''ordernumber'' \<and>
   keys (order_record (uniqueOrderNumber vu iter)) = keys (order_record (uniqueOrderNumber vu' iter')) \<and>
   keys (order_item (uniqueOrderNumber vu iter)) = keys (order_item (uniqueOrderNumber vu' iter')) \<and>
   (\<forall>k. k \<noteq> ''ordernumber'' \<and> k \<noteq> ''items'' \<longrightarrow>
      member (order_record (uniqueOrderNumber vu iter)) k
        = member (order_record (uniqueOrderNumber vu' iter')) k) \<and>
   (\<forall>k. k \<noteq> ''ordernumber'' \<longrightarrow>
      member (order_item (uniqueOrderNumber vu iter)) k
        = member (order_item (uniqueOrderNumber vu' iter')) k)\<close>
proof -
  have shape: "generateOrderPayload vu iter = JSON_stringify (orderObject vu iter) \<and>
   keys (orderObject vu iter) = [''order''] \<and>
   member (orderObject vu iter) ''order'' = Some (JArr [order_record (uniqueOrderNumber vu iter)]) \<and>
   member (order_record (uniqueOrderNumber vu iter)) ''items''
     = Some (JArr [order_item (uniqueOrderNumber vu iter)]) \<and>
   member (order_record (uniqueOrderNumber vu iter)) ''ordernumber''
     = Some (JStr (uniqueOrderNumber vu iter)) \<and>
   member (order_item (uniqueOrderNumber vu iter)) ''ordernumber''
     = member (order_record (uniqueOrderNumber vu iter)) ''ordernumber'' \<and>
   keys (order_record (uniqueOrderNumber vu iter)) = keys (order_record (uniqueOrderNumber vu' iter')) \<and>
   keys (order_item (uniqueOrderNumber vu iter)) = keys (order_item (uniqueOrderNumber vu' iter')) \<and>
   (\<forall>k. k \<noteq> ''ordernumber'' \<and> k \<noteq> ''items'' \<longrightarrow>
      member (order_record (uniqueOrderNumber vu iter)) k
        = member (order_record (uniqueOrderNumber vu' iter')) k) \<and>
   (\<forall>k. k \<noteq> ''ordernumber'' \<longrightarrow>
      member (order_item (uniqueOrderNumber vu iter)) k
        = member (order_item (uniqueOrderNumber vu' iter')) k)"
    by (simp add: generateOrderPayload_def orderObject_def order_record_def order_item_def
        del: JSON_stringify.simps)
  from generateOrderPayload_eq [of vu iter] shape show ?thesis
    by (rule conjI)
qed

text \<open>
  C9, witness: the plant code of the record and the net quantity of the item are the same
  for the index pairs (1, 0) and (2, 7), and the payload of the pair (1, 0) carries the
  order number \<open>12345678910000\<close> twice.
\<close>

theorem order_payload_shape_witness:
  \<open>''plantcode'' \<noteq> ''ordernumber'' \<and> ''plantcode'' \<noteq> ''items'' \<and>
   member (order_record (uniqueOrderNumber 1 0)) ''plantcode''
     = member (order_record (uniqueOrderNumber 2 7)) ''plantcode'' \<and>
   ''netqty'' \<noteq> ''ordernumber'' \<and>
   member (order_item (uniqueOrderNumber 1 0)) ''netqty''
     = member (order_item (uniqueOrderNumber 2 7)) ''netqty'' \<and>
   member (order_item (uniqueOrderNumber 1 0)) ''ordernumber'' = Some (JStr ''12345678910000'') \<and>
   generateOrderPayload 1 0 =
       ''{"order":[{"transactiontype":"PURCHASE_ORDER","ordernumber":"12345678910000","orderd''
       @ ''ate":"18/08/2025","ordertime":"12:16:22","plantcode":"P003","prodorderstatus":"","st''
       @ ''oragelocation":"RM03","vendorCode":"200128    ","vendorName":"GLOBAL TEXTILES ALLIAN''
       @ ''CE PVT LTD","items":[{"itemnumber":"10","materialcode":"CB88SHFLIBLENDGJ03651C001025''
       @ ''250GSMG","materialdescription":"CB88SHFLI BLEND GJ03651-C001025 250GSM","orderedquan''
       @ ''tity":1000,"confirmedgrqty":1000,"storagelocation":"RM03","uom":"M","ordernumber":"1''
       @ ''2345678910000","lineorderstatus":"C","content":"","category":"","model":"","productc''
       @ ''ode":"","dimension":"","netqty":1,"monthyear":"","mrp":0,"eannumber":"","mfgplantadd''
       @ ''":"","customercare":"","l1code":"99","l1text":"To be Created","l2code":"9999","l2tex''
       @ ''t":"To be Created","l3code":"999999","l3text":"To be Created","l4code":"99999999","l''
       @ ''4text":"To be Created","l5code":"999999999999","l5text":"To be Created","l6code":"99''
       @ ''999999999999999","l6text":"To be Created","remarks":"","attr1":"0.000 ","attr2":"0.0''
       @ ''00 ","attr3":"0.000 ","attr4":"","attr5":"","type":0}]}]}''\<close>
proof -
  have u: "uniqueOrderNumber 1 0 = ''12345678910000''"
    by (simp add: uniqueOrderNumber_def number_eval dec_nat_numeral digit_char_def)
  show ?thesis
    using order_payload_shape [of 1 0 2 7] unfolding u by simp
qed

text \<open>
  C10. The mrp-reprint payload has the two members \<open>po_details_code\<close> and
  \<open>serial_number\<close>. The first is the constant
  \<open>a6dd5d05-318f-4bca-833d-48d01aea97a3\<close>; every member other than \<open>serial_number\<close>
  is the same for all index pairs, and \<open>serial_number\<close> differs between any two distinct
  pairs.
\<close>

theorem mrp_reprint_fields:
  \<open>keys (mrpReprintObject vu iter) = [''po_details_code'', ''serial_number''] \<and>
   member (mrpReprintObject vu iter) ''po_details_code''
     = Some (JStr ''a6dd5d05-318f-4bca-833d-48d01aea97a3'') \<and>
   member (mrpReprintObject vu iter) ''serial_number'' = Some (JStr (serial_number vu iter)) \<and>
   (\<forall>k. k \<noteq> ''serial_number'' \<longrightarrow>
      member (mrpReprintObject vu iter) k = member (mrpReprintObject vu' iter') k) \<and>
   ((vu, iter) \<noteq> (vu', iter') \<longrightarrow>
      member (mrpReprintObject vu iter) ''serial_number''
        \<noteq> member (mrpReprintObject vu' iter') ''serial_number'') \<and>
   generateMrpReprintPayload vu iter =
     ''{"po_details_code":"a6dd5d05-318f-4bca-833d-48d01aea97a3","serial_number":"''
       @ serial_number vu iter @ ''"}''\<close>
  using serial_number_inj [of vu iter vu' iter'] generateMrpReprintPayload_eq [of vu iter]
  by (auto simp: mrpReprintObject_def serial_number_def)

text \<open>C10, witness: the index pairs (1, 0) and (2, 7).\<close>

theorem mrp_reprint_fields_witness:
  \<open>''po_details_code'' \<noteq> ''serial_number'' \<and>
   member (mrpReprintObject 1 0) ''po_details_code''
     = member (mrpReprintObject 2 7) ''po_details_code'' \<and>
   ((1::nat), (0::nat)) \<noteq> (2, 7) \<and>
   member (mrpReprintObject 1 0) ''serial_number'' \<noteq> member (mrpReprintObject 2 7) ''serial_number'' \<and>
   generateMrpReprintPayload 1 0 =
     ''{"po_details_code":"a6dd5d05-318f-4bca-833d-48d01aea97a3","serial_number":"P00302H4QhG6M1b00E-1-0"}''\<close>
  using mrp_reprint_fields [of 1 0 2 7]
  by (simp add: mrpReprintObject_def serial_number_def dec_nat_numeral digit_char_def)

end
